theory Spec2Isabelle
  imports Complex_Main
begin

section \<open>Python values used by the delivery-tracking backend\<close>

text \<open>
  The backend is Python. Its \<open>float\<close> values are modelled as \<^typ>\<open>real\<close> (exact
  arithmetic, no rounding, no infinities or NaN), its unbounded \<open>int\<close> as \<^typ>\<open>int\<close>,
  \<open>Optional[T]\<close> as \<^typ>\<open>'a option\<close>. Every exception the modelled code can raise is a
  value: a function that can raise returns \<open>py_error + 'a\<close>. Where the range of a double
  decides whether a function returns (\<open>calculate_eta\<close>), a second model on doubles with
  infinities and NaN is given beside the one on reals.
\<close>

datatype py_error = ZeroDivisionError | ValueError | KeyError | ConnectionClosed | OverflowError

text \<open>\<open>x / y\<close> on floats raises \<open>ZeroDivisionError\<close> when \<open>y\<close> is zero.\<close>

definition py_truediv :: "real \<Rightarrow> real \<Rightarrow> py_error + real" where
  "py_truediv x y = (if y = 0 then Inl ZeroDivisionError else Inr (x / y))"

text \<open>\<open>int(x)\<close> on a float truncates toward zero.\<close>

definition py_int :: "real \<Rightarrow> int" where
  "py_int x = (if 0 \<le> x then \<lfloor>x\<rfloor> else \<lceil>x\<rceil>)"

text \<open>Truthiness of an \<open>Optional[float]\<close>: \<open>None\<close> and \<open>0.0\<close> are falsy.\<close>

definition truthy_float :: "real option \<Rightarrow> bool" where
  "truthy_float v = (case v of None \<Rightarrow> False | Some x \<Rightarrow> x \<noteq> 0)"

text \<open>Truthiness of an \<open>Optional[int]\<close>: \<open>None\<close> and \<open>0\<close> are falsy.\<close>

definition truthy_int :: "int option \<Rightarrow> bool" where
  "truthy_int v = (case v of None \<Rightarrow> False | Some x \<Rightarrow> x \<noteq> 0)"

text \<open>Truthiness of an \<open>Optional[str]\<close>: \<open>None\<close> and the empty string are falsy.\<close>

definition truthy_str :: "string option \<Rightarrow> bool" where
  "truthy_str v = (case v of None \<Rightarrow> False | Some s \<Rightarrow> s \<noteq> [])"

text \<open>\<open>math.sqrt\<close> and \<open>math.asin\<close> raise \<open>ValueError\<close> outside their domain.\<close>

definition math_sqrt :: "real \<Rightarrow> py_error + real" where
  "math_sqrt x = (if x < 0 then Inl ValueError else Inr (sqrt x))"

definition math_asin :: "real \<Rightarrow> py_error + real" where
  "math_asin x = (if x < - 1 \<or> 1 < x then Inl ValueError else Inr (arcsin x))"

definition math_radians :: "real \<Rightarrow> real" where
  "math_radians x = x * pi / 180"

section \<open>utils/distance.py\<close>

definition DISTANCE_CORRECTION_FACTOR :: real where
  "DISTANCE_CORRECTION_FACTOR = 1.10"

definition DURATION_CORRECTION_FACTOR :: real where
  "DURATION_CORRECTION_FACTOR = 1.25"

subsection \<open>haversine_distance\<close>

text \<open>The local \<open>a\<close> of \<open>haversine_distance\<close>, all angles already in radians.\<close>

definition haversine_a :: "real \<Rightarrow> real \<Rightarrow> real \<Rightarrow> real \<Rightarrow> real" where
  "haversine_a lat1_rad lon1_rad lat2_rad lon2_rad =
     (let dlat = lat2_rad - lat1_rad;
          dlon = lon2_rad - lon1_rad
      in (sin (dlat / 2))\<^sup>2 + cos lat1_rad * cos lat2_rad * (sin (dlon / 2))\<^sup>2)"

definition haversine_distance :: "real \<Rightarrow> real \<Rightarrow> real \<Rightarrow> real \<Rightarrow> py_error + real" where
  "haversine_distance lat1 lon1 lat2 lon2 =
     (let a = haversine_a (math_radians lat1) (math_radians lon1)
                          (math_radians lat2) (math_radians lon2)
      in case math_sqrt a of
           Inl e \<Rightarrow> Inl e
         | Inr s \<Rightarrow>
             (case math_asin s of
                Inl e \<Rightarrow> Inl e
              | Inr as \<Rightarrow> (let c = 2 * as; r = 6371 in Inr (c * r))))"

subsection \<open>calculate_eta\<close>

definition calculate_eta :: "real \<Rightarrow> real option \<Rightarrow> real \<Rightarrow> py_error + int" where
  "calculate_eta distance_km current_speed_kmh avg_speed_kmh =
     (let speed_to_use =
            (if truthy_float current_speed_kmh \<and> the current_speed_kmh > 5
             then the current_speed_kmh else avg_speed_kmh)
      in case py_truediv distance_km speed_to_use of
           Inl e \<Rightarrow> Inl e
         | Inr time_hours \<Rightarrow> Inr (py_int (time_hours * 60)))"

subsection \<open>calculate_eta on doubles\<close>

text \<open>
  Exact reals never overflow, but \<open>int()\<close> of an infinite float raises \<open>OverflowError\<close> and
  \<open>int()\<close> of NaN raises \<open>ValueError\<close>. To decide whether \<open>calculate_eta\<close> returns at all,
  its arithmetic is modelled a second time, on IEEE doubles: a float is a finite real, one of
  the two infinities, or NaN. An operation on finite operands whose exact result has magnitude
  at least \<open>2^1024 - 2^970\<close> (half a unit in the last place above the largest double) gives an
  infinity; otherwise it gives the exact result rounded by \<open>rnd\<close>. The rounding to the nearest
  double, \<open>rnd\<close>, is a parameter of the model. The sign of zero is not distinguished: it has no
  effect on the functions modelled.
\<close>

datatype py_float = Finite real | PosInf | NegInf | NaN

text \<open>The least magnitude that rounds to an infinity.\<close>

definition float_overflow :: real where
  "float_overflow = 2 ^ 1024 - 2 ^ 970"

definition to_float :: "(real \<Rightarrow> real) \<Rightarrow> real \<Rightarrow> py_float" where
  "to_float rnd x =
     (if float_overflow \<le> x then PosInf
      else if x \<le> - float_overflow then NegInf
      else Finite (rnd x))"

text \<open>\<open>x / y\<close>: a zero divisor raises whatever the dividend is.\<close>

fun float_truediv :: "(real \<Rightarrow> real) \<Rightarrow> py_float \<Rightarrow> py_float \<Rightarrow> py_error + py_float" where
  "float_truediv rnd x (Finite b) =
     (if b = 0 then Inl ZeroDivisionError
      else Inr (case x of
                  Finite a \<Rightarrow> to_float rnd (a / b)
                | PosInf \<Rightarrow> if 0 < b then PosInf else NegInf
                | NegInf \<Rightarrow> if 0 < b then NegInf else PosInf
                | NaN \<Rightarrow> NaN))"
| "float_truediv rnd x PosInf = Inr (case x of Finite a \<Rightarrow> Finite 0 | _ \<Rightarrow> NaN)"
| "float_truediv rnd x NegInf = Inr (case x of Finite a \<Rightarrow> Finite 0 | _ \<Rightarrow> NaN)"
| "float_truediv rnd x NaN = Inr NaN"

text \<open>\<open>x * y\<close>.\<close>

fun float_mul :: "(real \<Rightarrow> real) \<Rightarrow> py_float \<Rightarrow> py_float \<Rightarrow> py_float" where
  "float_mul rnd (Finite a) (Finite b) = to_float rnd (a * b)"
| "float_mul rnd NaN y = NaN"
| "float_mul rnd x NaN = NaN"
| "float_mul rnd PosInf (Finite b) = (if b = 0 then NaN else if 0 < b then PosInf else NegInf)"
| "float_mul rnd NegInf (Finite b) = (if b = 0 then NaN else if 0 < b then NegInf else PosInf)"
| "float_mul rnd (Finite a) PosInf = (if a = 0 then NaN else if 0 < a then PosInf else NegInf)"
| "float_mul rnd (Finite a) NegInf = (if a = 0 then NaN else if 0 < a then NegInf else PosInf)"
| "float_mul rnd PosInf PosInf = PosInf"
| "float_mul rnd PosInf NegInf = NegInf"
| "float_mul rnd NegInf PosInf = NegInf"
| "float_mul rnd NegInf NegInf = PosInf"

text \<open>\<open>int(x)\<close> truncates a finite float and raises on an infinity or NaN.\<close>

fun float_int :: "py_float \<Rightarrow> py_error + int" where
  "float_int (Finite x) = Inr (py_int x)"
| "float_int NaN = Inl ValueError"
| "float_int PosInf = Inl OverflowError"
| "float_int NegInf = Inl OverflowError"

text \<open>Truthiness of an \<open>Optional[float]\<close>: only \<open>None\<close> and zero are falsy.\<close>

fun float_bool :: "py_float option \<Rightarrow> bool" where
  "float_bool None = False"
| "float_bool (Some (Finite x)) = (x \<noteq> 0)"
| "float_bool (Some y) = True"

text \<open>\<open>x > c\<close> for a finite \<open>c\<close>: false for NaN.\<close>

fun float_gt :: "py_float \<Rightarrow> real \<Rightarrow> bool" where
  "float_gt (Finite x) c = (c < x)"
| "float_gt PosInf c = True"
| "float_gt NegInf c = False"
| "float_gt NaN c = False"

text \<open>\<open>calculate_eta\<close> with this arithmetic; the literal \<open>60\<close> is converted to \<open>60.0\<close>.\<close>

definition calculate_eta_float ::
  "(real \<Rightarrow> real) \<Rightarrow> py_float \<Rightarrow> py_float option \<Rightarrow> py_float \<Rightarrow> py_error + int" where
  "calculate_eta_float rnd distance_km current_speed_kmh avg_speed_kmh =
     (let speed_to_use =
            (if float_bool current_speed_kmh \<and> float_gt (the current_speed_kmh) 5
             then the current_speed_kmh else avg_speed_kmh)
      in case float_truediv rnd distance_km speed_to_use of
           Inl e \<Rightarrow> Inl e
         | Inr time_hours \<Rightarrow> float_int (float_mul rnd time_hours (Finite 60)))"

subsection \<open>The routing provider\<close>

text \<open>
  The functions below call the OSRM routing service over HTTP. The service is a parameter of the
  model: a function from the number of requests made so far and the request to the outcome of
  \<open>client.get\<close>, so that a stub can answer every call differently. Every request is appended
  to a call list, which is how a claim counts the calls made during one operation.
\<close>

type_synonym coord = "real \<times> real"  \<comment> \<open>\<open>[longitude, latitude]\<close>\<close>

record osrm_route =
  route_distance :: "real option"          \<comment> \<open>\<open>None\<close>: key absent, \<open>route.get("distance", 0)\<close>\<close>
  route_duration :: "real option"          \<comment> \<open>\<open>None\<close>: key absent, \<open>route.get("duration", 0)\<close>\<close>
  route_coordinates :: "coord list option" \<comment> \<open>\<open>None\<close>: no geometry or no coordinates\<close>

record osrm_data =
  data_code :: "string option"
  data_routes :: "osrm_route list"         \<comment> \<open>an absent key and \<open>[]\<close> are both falsy\<close>

datatype http_outcome =
    TimeoutException
  | RequestError                           \<comment> \<open>any other exception inside the \<open>try\<close> block\<close>
  | Response int osrm_data                 \<comment> \<open>status code and decoded body\<close>

record osrm_request =
  q_overview :: string
  q_alternatives :: bool
  q_lon1 :: real
  q_lat1 :: real
  q_lon2 :: real
  q_lat2 :: real
  q_timeout :: real

type_synonym routing_provider = "nat \<Rightarrow> osrm_request \<Rightarrow> http_outcome"

definition http_get ::
  "routing_provider \<Rightarrow> osrm_request list \<Rightarrow> osrm_request \<Rightarrow> http_outcome \<times> osrm_request list" where
  "http_get provider calls req = (provider (length calls) req, calls @ [req])"

definition get_or_zero :: "real option \<Rightarrow> real" where
  "get_or_zero v = (case v of None \<Rightarrow> 0 | Some x \<Rightarrow> x)"

definition get_or_empty :: "coord list option \<Rightarrow> coord list" where
  "get_or_empty v = (case v of None \<Rightarrow> [] | Some x \<Rightarrow> x)"

subsection \<open>get_road_distance\<close>

definition get_road_distance ::
  "routing_provider \<Rightarrow> osrm_request list \<Rightarrow> real \<Rightarrow> real \<Rightarrow> real \<Rightarrow> real \<Rightarrow> real
     \<Rightarrow> (real option \<times> int option) \<times> osrm_request list" where
  "get_road_distance provider calls lat1 lon1 lat2 lon2 timeout =
     (let (response, calls') = http_get provider calls
            \<lparr>q_overview = ''false'', q_alternatives = False,
             q_lon1 = lon1, q_lat1 = lat1, q_lon2 = lon2, q_lat2 = lat2, q_timeout = timeout\<rparr>
      in (case response of
            TimeoutException \<Rightarrow> (None, None)
          | RequestError \<Rightarrow> (None, None)
          | Response status_code data \<Rightarrow>
              if status_code = 200 then
                (case data_routes data of
                   [] \<Rightarrow> (None, None)
                 | route # _ \<Rightarrow>
                     if data_code data = Some ''Ok'' then
                       (let distance_meters = get_or_zero (route_distance route);
                            duration_seconds = get_or_zero (route_duration route);
                            distance_km = (distance_meters / 1000) * DISTANCE_CORRECTION_FACTOR;
                            duration_minutes =
                              py_int ((duration_seconds / 60) * DURATION_CORRECTION_FACTOR);
                            duration_minutes =
                              (if duration_minutes = 0 \<and> distance_km > 0.1 then 1
                               else duration_minutes)
                        in (Some distance_km, Some duration_minutes))
                     else (None, None))
              else (None, None),
          calls'))"

subsection \<open>get_route_with_geometry\<close>

definition get_route_with_geometry ::
  "routing_provider \<Rightarrow> osrm_request list \<Rightarrow> real \<Rightarrow> real \<Rightarrow> real \<Rightarrow> real \<Rightarrow> real
     \<Rightarrow> (real option \<times> int option \<times> coord list option) \<times> osrm_request list" where
  "get_route_with_geometry provider calls lat1 lon1 lat2 lon2 timeout =
     (let (response, calls') = http_get provider calls
            \<lparr>q_overview = ''simplified'', q_alternatives = False,
             q_lon1 = lon1, q_lat1 = lat1, q_lon2 = lon2, q_lat2 = lat2, q_timeout = timeout\<rparr>
      in (case response of
            TimeoutException \<Rightarrow> (None, None, None)
          | RequestError \<Rightarrow> (None, None, None)
          | Response status_code data \<Rightarrow>
              if status_code = 200 then
                (case data_routes data of
                   [] \<Rightarrow> (None, None, None)
                 | route # _ \<Rightarrow>
                     if data_code data = Some ''Ok'' then
                       (let distance_meters = get_or_zero (route_distance route);
                            duration_seconds = get_or_zero (route_duration route);
                            coordinates = get_or_empty (route_coordinates route);
                            distance_km = (distance_meters / 1000) * DISTANCE_CORRECTION_FACTOR;
                            duration_minutes =
                              py_int ((duration_seconds / 60) * DURATION_CORRECTION_FACTOR);
                            duration_minutes =
                              (if duration_minutes = 0 \<and> distance_km > 0.1 then 1
                               else duration_minutes)
                        in (Some distance_km, Some duration_minutes, Some coordinates))
                     else (None, None, None))
              else (None, None, None),
          calls'))"

subsection \<open>get_distance_and_eta\<close>

text \<open>
  The default arguments of the source are written out: \<open>get_road_distance\<close> is called with
  its default timeout 5.0, \<open>calculate_eta\<close> with its default average speed 40.0. An exception
  of \<open>haversine_distance\<close> or \<open>calculate_eta\<close> propagates to the caller.
\<close>

definition get_distance_and_eta ::
  "routing_provider \<Rightarrow> osrm_request list \<Rightarrow> real \<Rightarrow> real \<Rightarrow> real \<Rightarrow> real \<Rightarrow> real option \<Rightarrow> bool
     \<Rightarrow> (py_error + real \<times> int \<times> bool) \<times> osrm_request list" where
  "get_distance_and_eta provider calls driver_lat driver_lon customer_lat customer_lon
       current_speed_kmh use_road_distance =
     (let ((road_distance, road_eta), calls') =
            (if use_road_distance
             then get_road_distance provider calls driver_lat driver_lon customer_lat customer_lon 5.0
             else ((None, None), calls))
      in if use_road_distance \<and> road_distance \<noteq> None \<and> road_eta \<noteq> None
         then (Inr (the road_distance, the road_eta, True), calls')
         else (case haversine_distance driver_lat driver_lon customer_lat customer_lon of
                 Inl e \<Rightarrow> (Inl e, calls')
               | Inr straight_distance \<Rightarrow>
                   (case calculate_eta straight_distance current_speed_kmh 40.0 of
                      Inl e \<Rightarrow> (Inl e, calls')
                    | Inr eta \<Rightarrow> (Inr (straight_distance, eta, False), calls'))))"

subsection \<open>get_alternative_routes\<close>

text \<open>\<open>round(x, 2)\<close>: to the nearest hundredth, ties to even.\<close>

definition py_round2 :: "real \<Rightarrow> real" where
  "py_round2 x =
     (let y = x * 100; f = \<lfloor>y\<rfloor>; r = y - of_int f
      in of_int (if r < 1 / 2 then f else if 1 / 2 < r then f + 1
                 else if even f then f else f + 1) / 100)"

record RouteOption =
  ro_route_index :: int
  ro_distance_km :: real
  ro_duration_minutes :: int
  ro_coordinates :: "coord list"

definition get_alternative_routes ::
  "routing_provider \<Rightarrow> osrm_request list \<Rightarrow> real \<Rightarrow> real \<Rightarrow> real \<Rightarrow> real \<Rightarrow> real
     \<Rightarrow> RouteOption list \<times> osrm_request list" where
  "get_alternative_routes provider calls lat1 lon1 lat2 lon2 timeout =
     (let (response, calls') = http_get provider calls
            \<lparr>q_overview = ''full'', q_alternatives = True,
             q_lon1 = lon1, q_lat1 = lat1, q_lon2 = lon2, q_lat2 = lat2, q_timeout = timeout\<rparr>
      in (case response of
            TimeoutException \<Rightarrow> []
          | RequestError \<Rightarrow> []
          | Response status_code data \<Rightarrow>
              if status_code = 200 then
                (if data_code data = Some ''Ok'' \<and> data_routes data \<noteq> [] then
                   map (\<lambda>(idx, route).
                          (let distance_meters = get_or_zero (route_distance route);
                               duration_seconds = get_or_zero (route_duration route);
                               coords = get_or_empty (route_coordinates route);
                               dist_km = (distance_meters / 1000) * DISTANCE_CORRECTION_FACTOR;
                               dur_minutes =
                                 py_int ((duration_seconds / 60) * DURATION_CORRECTION_FACTOR);
                               dur_minutes =
                                 (if dur_minutes = 0 \<and> dist_km > 0.1 then 1 else dur_minutes)
                           in \<lparr>ro_route_index = int idx, ro_distance_km = py_round2 dist_km,
                               ro_duration_minutes = dur_minutes, ro_coordinates = coords\<rparr>))
                       (enumerate 0 (take 3 (data_routes data)))
                 else [])
              else [],
          calls'))"

section \<open>The persistent tables and the process-wide state\<close>

text \<open>
  The SQLAlchemy models of \<open>models/\<close>, with the columns the modelled handlers read or write.
  A table is the list of its rows in insertion order; \<open>query(...).filter(...).first()\<close> is
  \<^const>\<open>find\<close>, and a write through the object that \<open>first()\<close> returned changes that row.
\<close>

datatype OrderStatus = PENDING | ASSIGNED | IN_TRANSIT | DELIVERED | CANCELLED

datatype UserRole = ADMIN | DRIVER | CUSTOMER

record order_row =
  o_id :: int
  o_customer_id :: int
  o_driver_id :: "int option"
  o_status :: OrderStatus
  o_delivery_time :: "nat option"
  o_otp :: "string option"
  o_signature :: "string option"
  o_delivery_address :: "string option"
  o_delivery_gps_lat :: "real option"
  o_delivery_gps_long :: "real option"

record user_row =
  u_id :: int
  u_role :: UserRole
  u_name :: string
  u_mobile :: string

record customer_row =
  cu_id :: int
  cu_user_id :: int
  cu_company_name :: string
  cu_address :: "string option"
  cu_gps_lat :: "real option"
  cu_gps_long :: "real option"

record receipt_row =
  rc_id :: int
  rc_order_id :: int

record transaction_row =
  tx_id :: int
  tx_order_id :: "int option"
  tx_amount :: real
  tx_paid :: real
  tx_due :: real

record truck_location_row =
  tl_id :: int
  tl_driver_id :: int
  tl_latitude :: real
  tl_longitude :: real
  tl_accuracy :: "real option"
  tl_speed :: "real option"
  tl_heading :: "real option"
  tl_timestamp :: nat

type_synonym websocket = nat

text \<open>The JSON messages pushed to location subscribers (time stamps as clock ticks).\<close>

datatype ws_message =
    TrackingBroadcast int real real nat
      \<comment> \<open>\<open>driver_id\<close>, \<open>latitude\<close>, \<open>longitude\<close>, \<open>timestamp\<close> (tracking.py)\<close>
  | LocationBroadcast int string string truck_location_row
      \<comment> \<open>\<open>driver_id\<close>, \<open>driver_name\<close>, \<open>driver_mobile\<close> and the stored row (location.py)\<close>

text \<open>
  One record holds everything the server process keeps between requests: the database tables,
  the module globals \<open>route_cache\<close> and \<open>selected_route_cache\<close> of tracking.py, the
  \<open>active_connections\<close> lists of the two \<open>ConnectionManager\<close> instances (tracking.py and
  location.py), and, for observation only, the messages that reached a websocket and the requests
  made to the routing provider.
\<close>

type_synonym route_cache_entry = "real \<times> real \<times> real \<times> real \<times> coord list"

record app_state =
  orders :: "order_row list"
  users :: "user_row list"
  customers :: "customer_row list"
  receipts :: "receipt_row list"
  transactions :: "transaction_row list"
  truck_locations :: "truck_location_row list"
  clock :: nat
  route_cache :: "int \<rightharpoonup> route_cache_entry"
  selected_route_cache :: "int \<rightharpoonup> int"
  tracking_connections :: "websocket list"
  location_connections :: "websocket list"
  delivered :: "(websocket \<times> ws_message) list"
  osrm_calls :: "osrm_request list"

text \<open>The object returned by \<open>first()\<close> is mutated: only the first matching row changes.\<close>

fun update_first :: "('a \<Rightarrow> bool) \<Rightarrow> ('a \<Rightarrow> 'a) \<Rightarrow> 'a list \<Rightarrow> 'a list" where
  "update_first P f [] = []"
| "update_first P f (x # xs) = (if P x then f x # xs else x # update_first P f xs)"

text \<open>HTTP errors. The detail of an \<open>HTTPException\<close> is kept as the pieces of its f-string.\<close>

datatype detail_part = Text string | Num int | Amount real | StatusName OrderStatus

datatype http_error =
    HTTPException int "detail_part list"   \<comment> \<open>\<open>status_code\<close>, \<open>detail\<close>\<close>
  | RequestValidationError                 \<comment> \<open>422, raised by the pydantic field constraints\<close>
  | InternalServerError py_error           \<comment> \<open>500, an exception no handler catches\<close>

section \<open>routers/orders.py\<close>

record OrderUpdate =
  req_status :: "OrderStatus option"
  req_driver_id :: "int option"
  req_delivery_time :: "nat option"
  req_signature :: "string option"
  req_otp_input :: "string option"

subsection \<open>update_order\<close>

text \<open>
  The notifications sent after the commit are inside a \<open>try\<close> whose handler only prints; they
  write no order, receipt or transaction and are left out. The response is built from the
  refreshed order, which is what the model returns.
\<close>

definition update_order ::
  "int \<Rightarrow> OrderUpdate \<Rightarrow> user_row \<Rightarrow> app_state \<Rightarrow> (http_error + order_row) \<times> app_state" where
  "update_order order_id request current_user db =
     (case find (\<lambda>row. o_id row = order_id) (orders db) of
        None \<Rightarrow> (Inl (HTTPException 404 [Text ''Order not found'']), db)
      | Some order \<Rightarrow>
          (case (if req_status request = Some IN_TRANSIT \<and> u_role current_user = DRIVER
                 then find (\<lambda>row. o_driver_id row = Some (u_id current_user)
                                  \<and> o_status row = IN_TRANSIT \<and> o_id row \<noteq> order_id) (orders db)
                 else None) of
             Some active_delivery \<Rightarrow>
               (Inl (HTTPException 409
                      [Text ''You already have an active delivery (Order #'',
                       Num (o_id active_delivery),
                       Text ''). Complete it before starting a new one.'']), db)
           | None \<Rightarrow>
               (let will_be_delivered =
                      (req_status request = Some DELIVERED \<or> req_signature request \<noteq> None)
                in if will_be_delivered \<and> \<not> truthy_str (req_otp_input request) then
                     (Inl (HTTPException 400 [Text ''OTP is required to complete delivery'']), db)
                   else if will_be_delivered \<and> req_otp_input request \<noteq> o_otp order then
                     (Inl (HTTPException 400 [Text ''Invalid OTP. Please verify with customer'']), db)
                   else if will_be_delivered
                           \<and> length (filter (\<lambda>r. rc_order_id r = order_id) (receipts db)) = 0 then
                     (Inl (HTTPException 400
                            [Text ''Cannot mark as delivered: Sale receipt is required'']), db)
                   else
                     (let order = (case req_status request of
                                     None \<Rightarrow> order
                                   | Some st \<Rightarrow> order\<lparr>o_status := st\<rparr>);
                          order = (if truthy_int (req_driver_id request)
                                   then order\<lparr>o_driver_id := req_driver_id request,
                                              o_status := ASSIGNED\<rparr>
                                   else order);
                          order = (case req_delivery_time request of
                                     None \<Rightarrow> order
                                   | Some t \<Rightarrow> order\<lparr>o_delivery_time := Some t\<rparr>);
                          order = (if truthy_str (req_signature request)
                                   then (let order = order\<lparr>o_signature := req_signature request\<rparr>
                                         in if req_status request \<noteq> Some DELIVERED
                                            then order\<lparr>o_status := DELIVERED\<rparr>
                                            else order)
                                   else order)
                      in (Inr order,
                          db\<lparr>orders := update_first (\<lambda>row. o_id row = order_id) (\<lambda>_. order)
                                          (orders db)\<rparr>)))))"

subsection \<open>cancel_order\<close>

text \<open>
  \<open>cancel_order\<close> and \<open>delete_order\<close> are both registered for \<open>DELETE /api/orders/{order_id}\<close>;
  \<open>cancel_order\<close> is registered first.
\<close>

definition cancel_order ::
  "int \<Rightarrow> user_row \<Rightarrow> app_state \<Rightarrow> (http_error + string) \<times> app_state" where
  "cancel_order order_id current_user db =
     (case find (\<lambda>row. o_id row = order_id) (orders db) of
        None \<Rightarrow> (Inl (HTTPException 404 [Text ''Order not found'']), db)
      | Some order \<Rightarrow>
          (Inr ''Order cancelled successfully'',
           db\<lparr>orders := update_first (\<lambda>row. o_id row = order_id) (\<lambda>row. row\<lparr>o_status := CANCELLED\<rparr>)
                           (orders db)\<rparr>))"

subsection \<open>delete_order\<close>

definition delete_order ::
  "int \<Rightarrow> user_row \<Rightarrow> app_state \<Rightarrow> (http_error + string \<times> int) \<times> app_state" where
  "delete_order order_id current_user db =
     (case find (\<lambda>row. o_id row = order_id) (orders db) of
        None \<Rightarrow> (Inl (HTTPException 404 [Text ''Order not found'']), db)
      | Some order \<Rightarrow>
          if o_status order \<noteq> PENDING \<and> o_status order \<noteq> ASSIGNED then
            (Inl (HTTPException 400
                   [Text ''Cannot cancel order with status '', StatusName (o_status order),
                    Text ''. Only PENDING or ASSIGNED orders can be cancelled.'']), db)
          else if u_role current_user = CUSTOMER
                  \<and> (case find (\<lambda>c. cu_user_id c = u_id current_user) (customers db) of
                        None \<Rightarrow> True
                      | Some customer \<Rightarrow> o_customer_id order \<noteq> cu_id customer) then
            (Inl (HTTPException 403 [Text ''Not authorized to cancel this order'']), db)
          else
            (let transaction = find (\<lambda>t. tx_order_id t = Some order_id) (transactions db)
             in case transaction of
                  Some t \<Rightarrow>
                    if tx_paid t > 0 then
                      (Inl (HTTPException 400
                             [Text ''Cannot cancel order with payments. Paid amount: '',
                              Amount (tx_paid t),
                              Text ''. Please contact admin for refund.'']), db)
                    else
                      (Inr (''Order cancelled successfully'', order_id),
                       db\<lparr>orders := update_first (\<lambda>row. o_id row = order_id)
                                       (\<lambda>row. row\<lparr>o_status := CANCELLED\<rparr>) (orders db),
                          transactions := update_first (\<lambda>t. tx_order_id t = Some order_id)
                                       (\<lambda>t. t\<lparr>tx_amount := 0, tx_due := 0, tx_paid := 0\<rparr>)
                                       (transactions db)\<rparr>)
                | None \<Rightarrow>
                    (Inr (''Order cancelled successfully'', order_id),
                     db\<lparr>orders := update_first (\<lambda>row. o_id row = order_id)
                                     (\<lambda>row. row\<lparr>o_status := CANCELLED\<rparr>) (orders db)\<rparr>)))"

section \<open>routers/tracking.py\<close>

definition ROUTE_CACHE_THRESHOLD_METERS :: real where
  "ROUTE_CACHE_THRESHOLD_METERS = 100"

definition OFF_ROUTE_THRESHOLD_METERS :: real where
  "OFF_ROUTE_THRESHOLD_METERS = 50"

text \<open>The same function is defined, word for word, in tracking.py and in location.py.\<close>

definition is_valid_india_location :: "real \<Rightarrow> real \<Rightarrow> bool" where
  "is_valid_india_location latitude longitude =
     (6.5 \<le> latitude \<and> latitude \<le> 35.5 \<and> 68.0 \<le> longitude \<and> longitude \<le> 97.5)"

text \<open>Truthiness of a list of coordinates that may be \<open>None\<close>.\<close>

definition truthy_coords :: "coord list option \<Rightarrow> bool" where
  "truthy_coords v = (case v of None \<Rightarrow> False | Some cs \<Rightarrow> cs \<noteq> [])"

text \<open>\<open>a or b\<close> on optional floats.\<close>

definition or_float :: "real option \<Rightarrow> real option \<Rightarrow> real option" where
  "or_float a b = (if truthy_float a then a else b)"

text \<open>\<open>order_by(TruckLocation.timestamp.desc()).first()\<close> for one driver.\<close>

definition latest_location :: "int \<Rightarrow> truck_location_row list \<Rightarrow> truck_location_row option" where
  "latest_location driver_id locs =
     (case filter (\<lambda>l. tl_driver_id l = driver_id) locs of
        [] \<Rightarrow> None
      | x # xs \<Rightarrow> Some (fold (\<lambda>l best. if tl_timestamp best < tl_timestamp l then l else best) xs x))"

record OrderTrackingResponse =
  tr_order_id :: int
  tr_driver_id :: int
  tr_driver_name :: string
  tr_driver_mobile :: string
  tr_latitude :: real
  tr_longitude :: real
  tr_accuracy :: "real option"
  tr_speed :: "real option"
  tr_heading :: "real option"
  tr_timestamp :: nat
  tr_customer_lat :: "real option"
  tr_customer_lng :: "real option"
  tr_customer_name :: "string option"
  tr_customer_address :: "string option"
  tr_distance_km :: "real option"
  tr_eta_minutes :: "int option"
  tr_route_geometry :: "coord list option"
  tr_selected_route_index :: int

subsection \<open>get_order_tracking\<close>

text \<open>
  The body of \<open>if cust_lat and cust_lng:\<close> (lines 151 to 207 of tracking.py), with the locals
  \<open>distance_km\<close>, \<open>eta_minutes\<close> and \<open>route_geometry\<close> it leaves behind. The state is returned
  also when an exception leaves the function: the cache writes made before it stay.
\<close>

definition get_order_tracking_route ::
  "routing_provider \<Rightarrow> int \<Rightarrow> real \<Rightarrow> real \<Rightarrow> real \<Rightarrow> real \<Rightarrow> real option \<Rightarrow> app_state
     \<Rightarrow> (py_error + real option \<times> int option \<times> coord list option) \<times> app_state" where
  "get_order_tracking_route provider order_id driver_lat driver_lng cust_lat cust_lng speed st =
     (let cached = route_cache st order_id
      in case (case cached of
                 None \<Rightarrow> Inr (True, None)
               | Some (cached_driver_lat, cached_driver_lng, cached_cust_lat, cached_cust_lng,
                       cached_route) \<Rightarrow>
                   (case haversine_distance cached_driver_lat cached_driver_lng
                           driver_lat driver_lng of
                      Inl e \<Rightarrow> Inl e
                    | Inr movement_km \<Rightarrow>
                        (let movement_meters = movement_km * 1000
                         in if movement_meters < ROUTE_CACHE_THRESHOLD_METERS
                            then Inr (False, Some cached_route)
                            else Inr (True, None)))) of
           Inl e \<Rightarrow> (Inl e, st)
         | Inr (should_refetch, route_geometry) \<Rightarrow>
             (let (distance_km, eta_minutes, route_geometry, st) =
                    (if should_refetch then
                       (let ((road_distance, road_eta, route_coords), calls') =
                              get_route_with_geometry provider (osrm_calls st)
                                driver_lat driver_lng cust_lat cust_lng 20.0;
                            st = st\<lparr>osrm_calls := calls'\<rparr>;
                            (distance_km, eta_minutes, route_geometry, st) =
                              (if road_distance \<noteq> None \<and> road_eta \<noteq> None then
                                 (if truthy_coords route_coords then
                                    (road_distance, road_eta, route_coords,
                                     st\<lparr>route_cache := (route_cache st)(order_id \<mapsto>
                                          (driver_lat, driver_lng, cust_lat, cust_lng,
                                           the route_coords))\<rparr>)
                                  else (road_distance, road_eta, route_geometry, st))
                               else (None, None, route_geometry, st));
                            route_geometry =
                              (case (route_geometry, cached) of
                                 (None, Some c) \<Rightarrow> Some (snd (snd (snd (snd c))))
                               | _ \<Rightarrow> route_geometry)
                        in (distance_km, eta_minutes, route_geometry, st))
                     else (None, None, route_geometry, st))
              in case (if distance_km = None then
                         (case get_distance_and_eta provider (osrm_calls st)
                                 driver_lat driver_lng cust_lat cust_lng
                                 (if truthy_float speed then speed else None) True of
                            (Inl e, calls') \<Rightarrow> (Inl e, st\<lparr>osrm_calls := calls'\<rparr>)
                          | (Inr (d, eta, is_road), calls') \<Rightarrow>
                              (Inr (Some d, Some eta), st\<lparr>osrm_calls := calls'\<rparr>))
                       else (Inr (distance_km, eta_minutes), st)) of
                   (Inl e, st) \<Rightarrow> (Inl e, st)
                 | (Inr (distance_km, eta_minutes), st) \<Rightarrow>
                     (if route_geometry = None \<and> distance_km \<noteq> None then
                        (let ((_, _, route_coords), calls') =
                               get_route_with_geometry provider (osrm_calls st)
                                 driver_lat driver_lng cust_lat cust_lng 25.0;
                             st = st\<lparr>osrm_calls := calls'\<rparr>
                         in if truthy_coords route_coords then
                              (Inr (distance_km, eta_minutes, route_coords),
                               st\<lparr>route_cache := (route_cache st)(order_id \<mapsto>
                                    (driver_lat, driver_lng, cust_lat, cust_lng,
                                     the route_coords))\<rparr>)
                            else (Inr (distance_km, eta_minutes, route_geometry), st))
                      else (Inr (distance_km, eta_minutes, route_geometry), st))))"

definition get_order_tracking ::
  "routing_provider \<Rightarrow> int \<Rightarrow> user_row \<Rightarrow> app_state
     \<Rightarrow> (http_error + OrderTrackingResponse) \<times> app_state" where
  "get_order_tracking provider order_id current_user st =
     (case find (\<lambda>row. o_id row = order_id) (orders st) of
        None \<Rightarrow> (Inl (HTTPException 404 [Text ''Order not found'']), st)
      | Some order \<Rightarrow>
          if \<not> truthy_int (o_driver_id order) then
            (Inl (HTTPException 404 [Text ''No driver assigned to this order'']), st)
          else if o_status order \<noteq> ASSIGNED \<and> o_status order \<noteq> IN_TRANSIT then
            (Inl (HTTPException 404 [Text ''Order is not in trackable status'']), st)
          else
            (case latest_location (the (o_driver_id order)) (truck_locations st) of
               None \<Rightarrow> (Inl (HTTPException 404 [Text ''No location data found for driver'']), st)
             | Some location \<Rightarrow>
                 (case find (\<lambda>u. u_id u = the (o_driver_id order)) (users st) of
                    None \<Rightarrow> (Inl (HTTPException 404 [Text ''Driver not found'']), st)
                  | Some driver \<Rightarrow>
                      (let customer = find (\<lambda>c. cu_id c = o_customer_id order) (customers st);
                           (customer_lat, customer_lng) =
                             (if truthy_float (o_delivery_gps_lat order)
                                 \<and> truthy_float (o_delivery_gps_long order)
                              then (o_delivery_gps_lat order, o_delivery_gps_long order)
                              else (case customer of
                                      Some c \<Rightarrow> (cu_gps_lat c, cu_gps_long c)
                                    | None \<Rightarrow> (None, None)));
                           customer_name = map_option cu_company_name customer;
                           customer_address =
                             (case customer of
                                None \<Rightarrow> None
                              | Some c \<Rightarrow> (if truthy_str (o_delivery_address order)
                                           then o_delivery_address order else cu_address c));
                           driver_lat = tl_latitude location;
                           driver_lng = tl_longitude location;
                           cust_lat = (if truthy_float customer_lat then customer_lat else None);
                           cust_lng = (if truthy_float customer_lng then customer_lng else None);
                           (route, st) =
                             (if truthy_float cust_lat \<and> truthy_float cust_lng
                              then get_order_tracking_route provider order_id driver_lat driver_lng
                                     (the cust_lat) (the cust_lng) (tl_speed location) st
                              else (Inr (None, None, None), st))
                       in case route of
                            Inl e \<Rightarrow> (Inl (InternalServerError e), st)
                          | Inr (distance_km, eta_minutes, route_geometry) \<Rightarrow>
                              (Inr \<lparr>tr_order_id = o_id order,
                                    tr_driver_id = u_id driver,
                                    tr_driver_name = u_name driver,
                                    tr_driver_mobile = u_mobile driver,
                                    tr_latitude = tl_latitude location,
                                    tr_longitude = tl_longitude location,
                                    tr_accuracy = tl_accuracy location,
                                    tr_speed = tl_speed location,
                                    tr_heading = tl_heading location,
                                    tr_timestamp = tl_timestamp location,
                                    tr_customer_lat = customer_lat,
                                    tr_customer_lng = customer_lng,
                                    tr_customer_name = customer_name,
                                    tr_customer_address = customer_address,
                                    tr_distance_km =
                                      (if truthy_float distance_km
                                       then Some (py_round2 (the distance_km)) else None),
                                    tr_eta_minutes = eta_minutes,
                                    tr_route_geometry = route_geometry,
                                    tr_selected_route_index =
                                      (case selected_route_cache st order_id of
                                         None \<Rightarrow> 0 | Some i \<Rightarrow> i)\<rparr>, st)))))"

subsection \<open>select_route\<close>

definition select_route ::
  "int \<Rightarrow> int \<Rightarrow> user_row \<Rightarrow> app_state \<Rightarrow> (http_error + bool \<times> int) \<times> app_state" where
  "select_route order_id req_route_index current_user st =
     (case find (\<lambda>row. o_id row = order_id) (orders st) of
        None \<Rightarrow> (Inl (HTTPException 404 [Text ''Order not found'']), st)
      | Some order \<Rightarrow>
          if u_role current_user = DRIVER \<and> o_driver_id order \<noteq> Some (u_id current_user) then
            (Inl (HTTPException 403 [Text ''Not authorized to modify this order's route'']), st)
          else
            (let st = st\<lparr>selected_route_cache :=
                          (selected_route_cache st)(order_id \<mapsto> req_route_index)\<rparr>;
                 st = (if route_cache st order_id \<noteq> None
                       then st\<lparr>route_cache := (route_cache st)(order_id := None)\<rparr>
                       else st)
             in (Inr (True, req_route_index), st)))"

subsection \<open>recalculate_route\<close>

text \<open>
  The optional calls of \<open>get_alternative_routes\<close> and \<open>get_route_with_geometry\<close> use their
  default timeouts, 5.0 and 15.0.
\<close>

definition recalculate_route ::
  "routing_provider \<Rightarrow> int \<Rightarrow> real \<Rightarrow> real \<Rightarrow> user_row \<Rightarrow> app_state
     \<Rightarrow> (http_error + bool \<times> RouteOption list \<times> int) \<times> app_state" where
  "recalculate_route provider order_id req_driver_lat req_driver_lng current_user st =
     (case find (\<lambda>row. o_id row = order_id) (orders st) of
        None \<Rightarrow> (Inl (HTTPException 404 [Text ''Order not found'']), st)
      | Some order \<Rightarrow>
          if u_role current_user = DRIVER \<and> o_driver_id order \<noteq> Some (u_id current_user) then
            (Inl (HTTPException 403 [Text ''Not authorized to modify this order's route'']), st)
          else
            (let customer_lat = o_delivery_gps_lat order;
                 customer_lng = o_delivery_gps_long order;
                 (customer_lat, customer_lng) =
                   (if \<not> truthy_float customer_lat \<or> \<not> truthy_float customer_lng then
                      (case find (\<lambda>c. cu_id c = o_customer_id order) (customers st) of
                         Some customer \<Rightarrow> (cu_gps_lat customer, cu_gps_long customer)
                       | None \<Rightarrow> (customer_lat, customer_lng))
                    else (customer_lat, customer_lng))
             in if \<not> truthy_float customer_lat \<or> \<not> truthy_float customer_lng then
                  (Inl (HTTPException 404 [Text ''Customer location not available'']), st)
                else
                  (let st = (if route_cache st order_id \<noteq> None
                             then st\<lparr>route_cache := (route_cache st)(order_id := None)\<rparr>
                             else st);
                       st = st\<lparr>selected_route_cache := (selected_route_cache st)(order_id \<mapsto> 0)\<rparr>;
                       (routes, calls') =
                         get_alternative_routes provider (osrm_calls st)
                           req_driver_lat req_driver_lng (the customer_lat) (the customer_lng) 5.0;
                       st = st\<lparr>osrm_calls := calls'\<rparr>;
                       (routes, st) =
                         (if routes = [] then
                            (let ((road_distance, road_eta, route_coords), calls') =
                                   get_route_with_geometry provider (osrm_calls st)
                                     req_driver_lat req_driver_lng
                                     (the customer_lat) (the customer_lng) 15.0;
                                 st = st\<lparr>osrm_calls := calls'\<rparr>
                             in if truthy_coords route_coords then
                                  ([\<lparr>ro_route_index = 0,
                                     ro_distance_km =
                                       (if truthy_float road_distance
                                        then py_round2 (the road_distance) else 0),
                                     ro_duration_minutes =
                                       (if truthy_int road_eta then the road_eta else 0),
                                     ro_coordinates = the route_coords\<rparr>], st)
                                else (routes, st))
                          else (routes, st))
                   in case routes of
                        [] \<Rightarrow> (Inl (HTTPException 404 [Text ''Could not calculate new routes'']), st)
                      | first_route # _ \<Rightarrow>
                          (Inr (True, routes, 0),
                           st\<lparr>route_cache := (route_cache st)(order_id \<mapsto>
                                (req_driver_lat, req_driver_lng,
                                 the customer_lat, the customer_lng,
                                 ro_coordinates first_route))\<rparr>))))"

section \<open>The location broadcast hub: ConnectionManager\<close>

text \<open>
  tracking.py and location.py each define the same class \<open>ConnectionManager\<close> and keep one
  instance of it. \<open>send_json\<close> on a websocket either delivers the message or raises; which
  sockets are still open is a parameter \<open>alive\<close>. A coroutine is modelled as running to
  completion: no other coroutine changes the registry between two of its steps.
\<close>

definition send_json ::
  "(websocket \<Rightarrow> bool) \<Rightarrow> websocket \<Rightarrow> 'm \<Rightarrow> (websocket \<times> 'm) list
     \<Rightarrow> py_error + (websocket \<times> 'm) list" where
  "send_json alive ws message sent =
     (if alive ws then Inr (sent @ [(ws, message)]) else Inl ConnectionClosed)"

text \<open>A \<open>for\<close> loop whose body may raise, and \<open>try: ... except: ...\<close>.\<close>

fun for_each :: "('a \<Rightarrow> 's \<Rightarrow> py_error + 's) \<Rightarrow> 'a list \<Rightarrow> 's \<Rightarrow> py_error + 's" where
  "for_each body [] s = Inr s"
| "for_each body (x # xs) s = (case body x s of Inl e \<Rightarrow> Inl e | Inr s' \<Rightarrow> for_each body xs s')"

definition try_except :: "py_error + 's \<Rightarrow> (py_error \<Rightarrow> py_error + 's) \<Rightarrow> py_error + 's" where
  "try_except body handler = (case body of Inl e \<Rightarrow> handler e | Inr s \<Rightarrow> Inr s)"

definition ConnectionManager_connect :: "websocket \<Rightarrow> websocket list \<Rightarrow> websocket list" where
  "ConnectionManager_connect ws active_connections = active_connections @ [ws]"

text \<open>\<open>list.remove(x)\<close> removes the first occurrence and raises \<open>ValueError\<close> if there is none.\<close>

definition list_remove :: "'a \<Rightarrow> 'a list \<Rightarrow> py_error + 'a list" where
  "list_remove x xs = (if x \<in> set xs then Inr (remove1 x xs) else Inl ValueError)"

definition ConnectionManager_disconnect ::
  "websocket \<Rightarrow> websocket list \<Rightarrow> py_error + websocket list" where
  "ConnectionManager_disconnect ws active_connections = list_remove ws active_connections"

text \<open>
  \<open>broadcast\<close> returns the messages delivered; the registry \<open>active_connections\<close> is only read.
\<close>

definition ConnectionManager_broadcast ::
  "(websocket \<Rightarrow> bool) \<Rightarrow> websocket list \<Rightarrow> 'm \<Rightarrow> (websocket \<times> 'm) list
     \<Rightarrow> py_error + (websocket \<times> 'm) list" where
  "ConnectionManager_broadcast alive active_connections message sent =
     for_each (\<lambda>connection sent.
                 try_except (send_json alive connection message sent) (\<lambda>e. Inr sent))
       active_connections sent"

section \<open>GPS ingestion\<close>

text \<open>
  The \<open>Depends(...)\<close> role checks run before a handler and are not part of the model: a handler
  is applied to the user they return. A new row gets the next free id and the current clock
  tick as its \<open>timestamp\<close> default.
\<close>

definition next_id :: "int list \<Rightarrow> int" where
  "next_id ids = fold max ids 0 + 1"

definition add_truck_location ::
  "int \<Rightarrow> real \<Rightarrow> real \<Rightarrow> real option \<Rightarrow> real option \<Rightarrow> real option \<Rightarrow> app_state
     \<Rightarrow> truck_location_row \<times> app_state" where
  "add_truck_location driver_id latitude longitude accuracy speed heading st =
     (let row = \<lparr>tl_id = next_id (map tl_id (truck_locations st)), tl_driver_id = driver_id,
                 tl_latitude = latitude, tl_longitude = longitude, tl_accuracy = accuracy,
                 tl_speed = speed, tl_heading = heading, tl_timestamp = clock st\<rparr>
      in (row, st\<lparr>truck_locations := truck_locations st @ [row], clock := clock st + 1\<rparr>))"

subsection \<open>tracking.py: update_location (legacy endpoint)\<close>

definition tracking_update_location ::
  "int \<Rightarrow> real \<Rightarrow> real \<Rightarrow> user_row \<Rightarrow> app_state
     \<Rightarrow> (http_error + truck_location_row) \<times> app_state" where
  "tracking_update_location req_driver req_latitude req_longitude current_user st =
     (if \<not> is_valid_india_location req_latitude req_longitude then
        (Inl (HTTPException 400 [Text ''Invalid location - coordinates outside service area'']), st)
      else
        (let (location, st) = add_truck_location req_driver req_latitude req_longitude
                                 None None None st
         in (Inr location, st)))"

subsection \<open>tracking.py: websocket_endpoint\<close>

text \<open>
  A text frame is decoded to a JSON object of which four keys are read. The model covers frames
  whose values under these keys are numbers or absent.
\<close>

record location_data =
  ld_latitude :: "real option"
  ld_lat :: "real option"
  ld_longitude :: "real option"
  ld_long :: "real option"

text \<open>One turn of the \<open>while True\<close> loop, for one received frame.\<close>

definition websocket_endpoint_step ::
  "(websocket \<Rightarrow> bool) \<Rightarrow> int \<Rightarrow> location_data \<Rightarrow> app_state \<Rightarrow> py_error + app_state" where
  "websocket_endpoint_step alive driver_id data st =
     (let latitude = or_float (ld_latitude data) (ld_lat data);
          longitude = or_float (ld_longitude data) (ld_long data)
      in if \<not> truthy_float latitude \<or> \<not> truthy_float longitude then Inr st
         else if \<not> is_valid_india_location (the latitude) (the longitude) then Inr st
         else
           (let (location, st) = add_truck_location driver_id (the latitude) (the longitude)
                                    None None None st
            in case ConnectionManager_broadcast alive (tracking_connections st)
                      (TrackingBroadcast driver_id (the latitude) (the longitude) (clock st))
                      (delivered st) of
                 Inl e \<Rightarrow> Inl e
               | Inr sent \<Rightarrow> Inr (st\<lparr>delivered := sent\<rparr>)))"

text \<open>
  The endpoint, for the frames received until the peer disconnects: \<open>WebSocketDisconnect\<close> ends
  the loop and removes the socket from the registry; any other exception leaves the function.
\<close>

definition websocket_endpoint ::
  "(websocket \<Rightarrow> bool) \<Rightarrow> websocket \<Rightarrow> int \<Rightarrow> location_data list \<Rightarrow> app_state
     \<Rightarrow> py_error + app_state" where
  "websocket_endpoint alive ws driver_id frames st =
     (let st = st\<lparr>tracking_connections := ConnectionManager_connect ws (tracking_connections st)\<rparr>
      in case for_each (websocket_endpoint_step alive driver_id) frames st of
           Inl e \<Rightarrow> Inl e
         | Inr st \<Rightarrow>
             (case ConnectionManager_disconnect ws (tracking_connections st) of
                Inl e \<Rightarrow> Inl e
              | Inr conns \<Rightarrow> Inr (st\<lparr>tracking_connections := conns\<rparr>)))"

subsection \<open>location.py: update_location\<close>

record LocationUpdate =
  lu_latitude :: real
  lu_longitude :: real
  lu_accuracy :: "real option"
  lu_speed :: "real option"
  lu_heading :: "real option"

text \<open>The \<open>Field(..., ge=, le=)\<close> constraints of the request model.\<close>

definition LocationUpdate_valid :: "LocationUpdate \<Rightarrow> bool" where
  "LocationUpdate_valid location =
     (- 90 \<le> lu_latitude location \<and> lu_latitude location \<le> 90
      \<and> - 180 \<le> lu_longitude location \<and> lu_longitude location \<le> 180
      \<and> (case lu_heading location of None \<Rightarrow> True | Some h \<Rightarrow> 0 \<le> h \<and> h \<le> 360))"

text \<open>
  The response repeats the stored row with the driver's name and a \<open>time_ago\<close> text; the model
  returns the row. The activity log written after the broadcast is not modelled.
\<close>

definition location_update_location ::
  "(websocket \<Rightarrow> bool) \<Rightarrow> LocationUpdate \<Rightarrow> user_row \<Rightarrow> app_state
     \<Rightarrow> (http_error + truck_location_row) \<times> app_state" where
  "location_update_location alive location current_user st =
     (if \<not> LocationUpdate_valid location then (Inl RequestValidationError, st)
      else if \<not> is_valid_india_location (lu_latitude location) (lu_longitude location) then
        (Inl (HTTPException 400
               [Text ''Invalid location - coordinates outside service area. Only live GPS locations within India are accepted.'']),
         st)
      else
        (let (truck_location, st) =
               add_truck_location (u_id current_user) (lu_latitude location) (lu_longitude location)
                 (lu_accuracy location) (lu_speed location) (lu_heading location) st
         in case ConnectionManager_broadcast alive (location_connections st)
                   (LocationBroadcast (u_id current_user) (u_name current_user)
                      (u_mobile current_user) truck_location)
                   (delivered st) of
              Inl e \<Rightarrow> (Inl (HTTPException 500 [Text ''Failed to update location'']), st)
            | Inr sent \<Rightarrow> (Inr truck_location, st\<lparr>delivered := sent\<rparr>)))"

section \<open>services/notification_broadcast.py\<close>

record 'm NotificationConnectionManager =
  active_connections :: "int \<rightharpoonup> websocket list"
  role_connections :: "string \<rightharpoonup> websocket list"
  nm_delivered :: "(websocket \<times> 'm) list"    \<comment> \<open>for observation: what reached a socket\<close>


subsection \<open>broadcast_to_role\<close>


section \<open>Scenarios\<close>

text \<open>
  Concrete providers, users and states on which the theorems below are evaluated.
  \<open>osrm_stub d s cs\<close> answers every request with one route of \<open>d\<close> metres, \<open>s\<close> seconds and
  the polyline \<open>cs\<close>; \<open>osrm_down\<close> times out on every request.
\<close>

definition osrm_stub :: "real \<Rightarrow> real \<Rightarrow> coord list \<Rightarrow> routing_provider" where
  "osrm_stub d s cs =
     (\<lambda>n req. Response 200 \<lparr>data_code = Some ''Ok'',
       data_routes = [\<lparr>route_distance = Some d, route_duration = Some s,
                       route_coordinates = Some cs\<rparr>]\<rparr>)"

definition osrm_down :: routing_provider where
  "osrm_down = (\<lambda>n req. TimeoutException)"

definition driver7 :: user_row where
  "driver7 = \<lparr>u_id = 7, u_role = DRIVER, u_name = ''Ravi'', u_mobile = ''9000000007''\<rparr>"

definition admin1 :: user_row where
  "admin1 = \<lparr>u_id = 1, u_role = ADMIN, u_name = ''Asha'', u_mobile = ''9000000001''\<rparr>"

definition order1 :: order_row where
  "order1 = \<lparr>o_id = 1, o_customer_id = 1, o_driver_id = Some 7, o_status = ASSIGNED,
      o_delivery_time = None, o_otp = Some ''482913'', o_signature = None,
      o_delivery_address = Some ''Plot 4, MIDC Road, Thane'',
      o_delivery_gps_lat = Some 19.2183, o_delivery_gps_long = Some 72.9781\<rparr>"

definition order2 :: order_row where
  "order2 = \<lparr>o_id = 2, o_customer_id = 1, o_driver_id = Some 7, o_status = IN_TRANSIT,
      o_delivery_time = None, o_otp = Some ''750031'', o_signature = None,
      o_delivery_address = Some ''Gate 2, Wagle Estate, Thane'',
      o_delivery_gps_lat = Some 19.2000, o_delivery_gps_long = Some 72.9700\<rparr>"

text \<open>An empty process, and one with the two orders of driver 7 and no receipt.\<close>

definition empty_state :: app_state where
  "empty_state = \<lparr>orders = [], users = [], customers = [], receipts = [], transactions = [],
      truck_locations = [], clock = 0, route_cache = Map.empty, selected_route_cache = Map.empty,
      tracking_connections = [], location_connections = [], delivered = [], osrm_calls = []\<rparr>"

definition two_orders :: app_state where
  "two_orders = empty_state\<lparr>orders := [order1, order2], users := [admin1, driver7]\<rparr>"

text \<open>
  Requests: complete an order by status with the OTP of order 1; start an order with a signature
  attached and no OTP; start an order.
\<close>

definition deliver_request :: OrderUpdate where
  "deliver_request = \<lparr>req_status = Some DELIVERED, req_driver_id = None, req_delivery_time = None,
      req_signature = None, req_otp_input = Some ''482913''\<rparr>"

definition start_and_sign_request :: OrderUpdate where
  "start_and_sign_request = \<lparr>req_status = Some IN_TRANSIT, req_driver_id = None,
      req_delivery_time = None, req_signature = Some ''signed'', req_otp_input = None\<rparr>"

definition start_request :: OrderUpdate where
  "start_request = \<lparr>req_status = Some IN_TRANSIT, req_driver_id = None,
      req_delivery_time = None, req_signature = None, req_otp_input = None\<rparr>"

definition with_receipt :: app_state where
  "with_receipt = two_orders\<lparr>receipts := [\<lparr>rc_id = 1, rc_order_id = 1\<rparr>]\<rparr>"

definition order3 :: order_row where
  "order3 = \<lparr>o_id = 3, o_customer_id = 1, o_driver_id = None, o_status = PENDING,
      o_delivery_time = None, o_otp = Some ''305518'', o_signature = None,
      o_delivery_address = Some ''Unit 9, Kolshet Road, Thane'',
      o_delivery_gps_lat = Some 19.2300, o_delivery_gps_long = Some 72.9800\<rparr>"

definition three_orders :: app_state where
  "three_orders = two_orders\<lparr>orders := [order1, order2, order3]\<rparr>"

text \<open>Driver 7 has order 1 assigned and no delivery in transit.\<close>

definition driver_idle :: app_state where
  "driver_idle = two_orders\<lparr>orders := [order1, order3]\<rparr>"

definition assign_request :: OrderUpdate where
  "assign_request = \<lparr>req_status = None, req_driver_id = Some 7, req_delivery_time = None,
      req_signature = None, req_otp_input = None\<rparr>"

text \<open>Order 1 with a transaction on which 4000 of 9000 has been paid.\<close>

definition part_paid :: app_state where
  "part_paid = two_orders\<lparr>transactions :=
      [\<lparr>tx_id = 1, tx_order_id = Some 1, tx_amount = 9000, tx_paid = 4000, tx_due = 5000\<rparr>]\<rparr>"

text \<open>
  Order 2 is being tracked: driver 7 last reported from (19.0760, 72.8777), a route from there
  to the delivery point of order 2 is cached, and the driver chose the alternative route 1.
\<close>

definition cached_route2 :: "coord list" where
  "cached_route2 = [(72.8777, 19.0760), (72.9300, 19.1500), (72.9700, 19.2000)]"

definition tracked :: app_state where
  "tracked = two_orders\<lparr>
      truck_locations :=
        [\<lparr>tl_id = 1, tl_driver_id = 7, tl_latitude = 19.0760, tl_longitude = 72.8777,
          tl_accuracy = None, tl_speed = None, tl_heading = None, tl_timestamp = 0\<rparr>],
      clock := 1,
      route_cache := [2 \<mapsto> (19.0760, 72.8777, 19.2000, 72.9700, cached_route2)],
      selected_route_cache := [2 \<mapsto> 1]\<rparr>"

text \<open>
  The device of driver 7 is connected to the tracking websocket as socket 5, and sends a frame
  with the coordinates of London.
\<close>

definition device_connected :: app_state where
  "device_connected = tracked\<lparr>tracking_connections := [5]\<rparr>"

definition london_frame :: location_data where
  "london_frame = \<lparr>ld_latitude = Some 51.5074, ld_lat = None,
      ld_longitude = Some (- 0.1278), ld_long = None\<rparr>"

definition london_update :: LocationUpdate where
  "london_update = \<lparr>lu_latitude = 51.5074, lu_longitude = - 0.1278, lu_accuracy = None,
      lu_speed = None, lu_heading = None\<rparr>"




section \<open>Predicates used in the statements\<close>

text \<open>
  The two conditions of the delivery gate of \<open>update_order\<close>: the caller supplied a non-empty
  \<open>otp_input\<close> equal to the order's stored \<open>otp\<close>, and the order has at least one receipt.
\<close>

definition delivery_gate :: "int \<Rightarrow> OrderUpdate \<Rightarrow> order_row \<Rightarrow> app_state \<Rightarrow> bool" where
  "delivery_gate order_id request order db =
     (truthy_str (req_otp_input request) \<and> req_otp_input request = o_otp order
      \<and> filter (\<lambda>r. rc_order_id r = order_id) (receipts db) \<noteq> [])"

text \<open>
  The request asks for delivery: it sets \<open>status = DELIVERED\<close> or carries a signature.
\<close>

definition delivery_trigger :: "OrderUpdate \<Rightarrow> bool" where
  "delivery_trigger request =
     (req_status request = Some DELIVERED \<or> req_signature request \<noteq> None)"

text \<open>
  The caller is a driver, asks for IN_TRANSIT, and is the driver of another order that is
  IN_TRANSIT.
\<close>

definition driver_conflict :: "int \<Rightarrow> OrderUpdate \<Rightarrow> user_row \<Rightarrow> order_row list \<Rightarrow> bool" where
  "driver_conflict order_id request current_user rows =
     (u_role current_user = DRIVER \<and> req_status request = Some IN_TRANSIT
      \<and> list_ex (\<lambda>row. o_driver_id row = Some (u_id current_user) \<and> o_status row = IN_TRANSIT
                        \<and> o_id row \<noteq> order_id) rows)"

text \<open>
  The single-active-delivery invariant of the specification: at most one order per driver is
  IN_TRANSIT.
\<close>

definition in_transit_orders :: "int \<Rightarrow> order_row list \<Rightarrow> order_row list" where
  "in_transit_orders d rows =
     filter (\<lambda>row. o_driver_id row = Some d \<and> o_status row = IN_TRANSIT) rows"

definition single_active_delivery :: "order_row list \<Rightarrow> bool" where
  "single_active_delivery rows =
     list_all (\<lambda>row. case o_driver_id row of
                        None \<Rightarrow> True
                      | Some d \<Rightarrow> length (in_transit_orders d rows) \<le> 1) rows"

text \<open>
  The live speed is a number strictly greater than 5 (an infinite speed included).
\<close>

definition live_speed_used :: "py_float option \<Rightarrow> bool" where
  "live_speed_used current_speed_kmh =
     (case current_speed_kmh of
        Some (Finite v) \<Rightarrow> 5 < v
      | Some PosInf \<Rightarrow> True
      | _ \<Rightarrow> False)"

section \<open>Properties of calculate_eta\<close>

lemma py_int_nonneg: "0 \<le> x \<Longrightarrow> py_int x = \<lfloor>x\<rfloor>"
  by (simp add: py_int_def)

lemma speed_to_use_cases:
  "(if truthy_float spd \<and> the spd > 5 then the spd else avg) =
   (case spd of None \<Rightarrow> avg | Some v \<Rightarrow> if 5 < v then v else avg)"
  by (cases spd) (auto simp: truthy_float_def)

lemma float_overflow_pos: "0 < float_overflow"
  by (simp add: float_overflow_def)

lemma float_overflow_big: "60 * 2 ^ 1000 < float_overflow"
  by (simp add: float_overflow_def)

lemma speed_to_use_float:
  "(if float_bool s \<and> float_gt (the s) 5 then the s else avg)
     = (if live_speed_used s then the s else avg)"
  by (cases s rule: float_bool.cases) (auto simp: live_speed_used_def)

lemma live_speed_cases:
  assumes "live_speed_used s"
  obtains v where "s = Some (Finite v)" "5 < v" | "s = Some PosInf"
  using assms by (auto simp: live_speed_used_def split: option.splits py_float.splits)

lemma eta_finite_speed:
  assumes m: "mono rnd" and z: "rnd 0 = 0" and d: "0 \<le> d" and v: "0 < v"
  shows "(case float_truediv rnd (Finite d) (Finite v) of
            Inl e \<Rightarrow> Inl e
          | Inr time_hours \<Rightarrow> float_int (float_mul rnd time_hours (Finite 60)))
         = (if float_overflow \<le> d / v \<or> float_overflow \<le> rnd (d / v) * 60
            then Inl OverflowError
            else Inr \<lfloor>rnd (rnd (d / v) * 60)\<rfloor>)"
    and "0 \<le> \<lfloor>rnd (rnd (d / v) * 60)\<rfloor>"
proof -
  have q: "0 \<le> d / v" using d v by simp
  have r: "0 \<le> rnd (d / v)"
    using monoD [OF m q] z by simp
  then have p: "0 \<le> rnd (d / v) * 60" by simp
  have rr: "0 \<le> rnd (rnd (d / v) * 60)"
    using monoD [OF m p] z by simp
  then show "0 \<le> \<lfloor>rnd (rnd (d / v) * 60)\<rfloor>" by simp
  have n1: "\<not> d / v \<le> - float_overflow"
    using q float_overflow_pos by linarith
  have n2: "\<not> rnd (d / v) * 60 \<le> - float_overflow"
    using p float_overflow_pos by linarith
  show "(case float_truediv rnd (Finite d) (Finite v) of
            Inl e \<Rightarrow> Inl e
          | Inr time_hours \<Rightarrow> float_int (float_mul rnd time_hours (Finite 60)))
         = (if float_overflow \<le> d / v \<or> float_overflow \<le> rnd (d / v) * 60
            then Inl OverflowError
            else Inr \<lfloor>rnd (rnd (d / v) * 60)\<rfloor>)"
    using v n1 n2 rr by (simp add: to_float_def py_int_def)
qed

lemma float_int_no_zero_division: "float_int x \<noteq> Inl ZeroDivisionError"
  by (cases x) simp_all

lemma calculate_eta_float_unfold:
  "calculate_eta_float rnd distance_km current_speed_kmh avg
     = (case float_truediv rnd distance_km
               (if live_speed_used current_speed_kmh then the current_speed_kmh else avg) of
          Inl e \<Rightarrow> Inl e
        | Inr time_hours \<Rightarrow> float_int (float_mul rnd time_hours (Finite 60)))"
  unfolding calculate_eta_float_def Let_def speed_to_use_float ..

lemma eta_infinite_speed:
  "rnd 0 = 0 \<Longrightarrow>
     (case float_truediv rnd (Finite d) PosInf of
        Inl e \<Rightarrow> Inl e
      | Inr time_hours \<Rightarrow> float_int (float_mul rnd time_hours (Finite 60))) = Inr 0"
  using float_overflow_pos by (simp add: to_float_def py_int_def)

lemma eta_in_range:
  assumes m: "mono rnd" and p: "rnd (2 ^ 1000) = 2 ^ 1000"
    and d: "0 \<le> d" "d \<le> 2 ^ 1000" and v: "5 < v"
  shows "\<not> (float_overflow \<le> d / v \<or> float_overflow \<le> rnd (d / v) * 60)"
proof -
  have "d / v \<le> d / 1"
    using d v by (intro divide_left_mono) simp_all
  then have q: "d / v \<le> 2 ^ 1000" using d by simp
  have "rnd (d / v) \<le> 2 ^ 1000"
    using monoD [OF m q] p by simp
  then have "rnd (d / v) * 60 \<le> 60 * 2 ^ 1000" by simp
  moreover have "(2::real) ^ 1000 \<le> 60 * 2 ^ 1000" by simp
  ultimately show ?thesis
    using q float_overflow_big by linarith
qed

text \<open>
  C10, as the code has it, on doubles. \<open>rnd\<close> is any rounding that is monotone and leaves
  \<open>0\<close> and \<open>2^1000\<close> as they are, as rounding to the nearest double does. With the default
  average speed 40, for every optional live speed (\<open>None\<close>, zero, negative, NaN, infinite):

  \<^item> the divisor is the live speed only when that is strictly greater than 5, otherwise 40;
    it is never zero, and \<open>calculate_eta\<close> never raises \<open>ZeroDivisionError\<close>, whatever the
    distance;
  \<^item> for a finite distance \<open>d \<ge> 0\<close> the function is not total: it raises \<open>OverflowError\<close>
    exactly when \<open>d / speed\<close> or the product by 60 leaves the range of doubles, and
    otherwise returns the integer part of the rounded product, which is not negative (0 when
    the live speed is infinite); it does return for every distance up to \<open>2^1000\<close> km;
  \<^item> for an infinite distance it raises \<open>OverflowError\<close>, or \<open>ValueError\<close> when the live speed
    is infinite as well.
\<close>

theorem calculate_eta_no_zero_division:
  assumes m: "mono rnd" and z: "rnd 0 = 0" and p: "rnd (2 ^ 1000) = 2 ^ 1000"
  shows "\<exists>speed. speed = (if live_speed_used current_speed_kmh
                          then the current_speed_kmh else Finite 40)
           \<and> speed \<noteq> Finite 0
           \<and> calculate_eta_float rnd distance_km current_speed_kmh (Finite 40)
               \<noteq> Inl ZeroDivisionError
           \<and> (\<forall>d. distance_km = Finite d \<and> 0 \<le> d \<longrightarrow>
                 calculate_eta_float rnd distance_km current_speed_kmh (Finite 40)
                   = (case speed of
                        Finite v \<Rightarrow>
                          if float_overflow \<le> d / v \<or> float_overflow \<le> rnd (d / v) * 60
                          then Inl OverflowError
                          else Inr \<lfloor>rnd (rnd (d / v) * 60)\<rfloor>
                      | _ \<Rightarrow> Inr 0)
                 \<and> (\<forall>eta. calculate_eta_float rnd distance_km current_speed_kmh (Finite 40)
                             = Inr eta \<longrightarrow> 0 \<le> eta)
                 \<and> (d \<le> 2 ^ 1000 \<longrightarrow>
                       (\<exists>eta. calculate_eta_float rnd distance_km current_speed_kmh (Finite 40)
                                 = Inr eta)))
           \<and> (distance_km = PosInf \<longrightarrow>
                 calculate_eta_float rnd distance_km current_speed_kmh (Finite 40)
                   = (if current_speed_kmh = Some PosInf then Inl ValueError
                      else Inl OverflowError))"
proof -
  define speed where
    "speed = (if live_speed_used current_speed_kmh then the current_speed_kmh else Finite 40)"
  note u = calculate_eta_float_unfold [where rnd = rnd and current_speed_kmh = current_speed_kmh
      and avg = "Finite 40", folded speed_def]
  consider v where "speed = Finite v" "5 < v" "current_speed_kmh \<noteq> Some PosInf"
    | "speed = PosInf" "current_speed_kmh = Some PosInf"
  proof (cases "live_speed_used current_speed_kmh")
    case True
    then show ?thesis
      by (rule live_speed_cases) (use True that in \<open>auto simp: speed_def\<close>)
  next
    case False
    then have "current_speed_kmh \<noteq> Some PosInf" by (auto simp: live_speed_used_def)
    with False that(1) [of 40] show ?thesis by (simp add: speed_def)
  qed
  then have "speed \<noteq> Finite 0
           \<and> calculate_eta_float rnd distance_km current_speed_kmh (Finite 40)
               \<noteq> Inl ZeroDivisionError
           \<and> (\<forall>d. distance_km = Finite d \<and> 0 \<le> d \<longrightarrow>
                 calculate_eta_float rnd distance_km current_speed_kmh (Finite 40)
                   = (case speed of
                        Finite v \<Rightarrow>
                          if float_overflow \<le> d / v \<or> float_overflow \<le> rnd (d / v) * 60
                          then Inl OverflowError
                          else Inr \<lfloor>rnd (rnd (d / v) * 60)\<rfloor>
                      | _ \<Rightarrow> Inr 0)
                 \<and> (\<forall>eta. calculate_eta_float rnd distance_km current_speed_kmh (Finite 40)
                             = Inr eta \<longrightarrow> 0 \<le> eta)
                 \<and> (d \<le> 2 ^ 1000 \<longrightarrow>
                       (\<exists>eta. calculate_eta_float rnd distance_km current_speed_kmh (Finite 40)
                                 = Inr eta)))
           \<and> (distance_km = PosInf \<longrightarrow>
                 calculate_eta_float rnd distance_km current_speed_kmh (Finite 40)
                   = (if current_speed_kmh = Some PosInf then Inl ValueError
                      else Inl OverflowError))"
  proof cases
    case 1
    then have v: "0 < v" "v \<noteq> 0" by simp_all
    have a: "speed \<noteq> Finite 0" using 1 by simp
    have b: "calculate_eta_float rnd distance_km current_speed_kmh (Finite 40)
               \<noteq> Inl ZeroDivisionError"
      unfolding u 1 using v float_int_no_zero_division by simp
    have c: "calculate_eta_float rnd distance_km current_speed_kmh (Finite 40)
                   = (case speed of
                        Finite v \<Rightarrow>
                          if float_overflow \<le> d / v \<or> float_overflow \<le> rnd (d / v) * 60
                          then Inl OverflowError
                          else Inr \<lfloor>rnd (rnd (d / v) * 60)\<rfloor>
                      | _ \<Rightarrow> Inr 0)
                 \<and> (\<forall>eta. calculate_eta_float rnd distance_km current_speed_kmh (Finite 40)
                             = Inr eta \<longrightarrow> 0 \<le> eta)
                 \<and> (d \<le> 2 ^ 1000 \<longrightarrow>
                       (\<exists>eta. calculate_eta_float rnd distance_km current_speed_kmh (Finite 40)
                                 = Inr eta))"
      if dd: "distance_km = Finite d \<and> 0 \<le> d" for d
    proof -
      from dd have d: "distance_km = Finite d" "0 \<le> d" by simp_all
      note e = eta_finite_speed [OF m z d(2) v(1)]
      have r: "calculate_eta_float rnd distance_km current_speed_kmh (Finite 40)
                 = (if float_overflow \<le> d / v \<or> float_overflow \<le> rnd (d / v) * 60
                    then Inl OverflowError
                    else Inr \<lfloor>rnd (rnd (d / v) * 60)\<rfloor>)"
        unfolding u 1 d using e(1) .
      have "d \<le> 2 ^ 1000 \<longrightarrow>
              \<not> (float_overflow \<le> d / v \<or> float_overflow \<le> rnd (d / v) * 60)"
        using eta_in_range [OF m p d(2) _ 1(2)] by blast
      with r e(2) show ?thesis
        unfolding 1 by (auto split: if_splits)
    qed
    have d: "calculate_eta_float rnd distance_km current_speed_kmh (Finite 40)
                   = (if current_speed_kmh = Some PosInf then Inl ValueError
                      else Inl OverflowError)" if "distance_km = PosInf"
      unfolding u 1 that using v 1(3) by simp
    from a b c d show ?thesis by blast
  next
    case 2
    have a: "speed \<noteq> Finite 0" using 2 by simp
    have b: "calculate_eta_float rnd distance_km current_speed_kmh (Finite 40)
               \<noteq> Inl ZeroDivisionError"
      unfolding u 2(1) using float_int_no_zero_division by simp
    have c: "calculate_eta_float rnd distance_km current_speed_kmh (Finite 40)
                   = (case speed of
                        Finite v \<Rightarrow>
                          if float_overflow \<le> d / v \<or> float_overflow \<le> rnd (d / v) * 60
                          then Inl OverflowError
                          else Inr \<lfloor>rnd (rnd (d / v) * 60)\<rfloor>
                      | _ \<Rightarrow> Inr 0)
                 \<and> (\<forall>eta. calculate_eta_float rnd distance_km current_speed_kmh (Finite 40)
                             = Inr eta \<longrightarrow> 0 \<le> eta)
                 \<and> (d \<le> 2 ^ 1000 \<longrightarrow>
                       (\<exists>eta. calculate_eta_float rnd distance_km current_speed_kmh (Finite 40)
                                 = Inr eta))"
      if dd: "distance_km = Finite d \<and> 0 \<le> d" for d
    proof -
      from dd have d: "distance_km = Finite d" by simp
      have "calculate_eta_float rnd distance_km current_speed_kmh (Finite 40) = Inr 0"
        unfolding u 2(1) d using eta_infinite_speed [where rnd = rnd and d = d] z by simp
      then show ?thesis unfolding 2 by simp
    qed
    have d: "calculate_eta_float rnd distance_km current_speed_kmh (Finite 40)
                   = (if current_speed_kmh = Some PosInf then Inl ValueError
                      else Inl OverflowError)" if "distance_km = PosInf"
      unfolding u 2(1) that using 2(2) by simp
    from a b c d show ?thesis by blast
  qed
  then show ?thesis unfolding speed_def by blast
qed

text \<open>
  Ten kilometres with the live speed 0, absent, negative, 20 km/h and infinite: 15, 15, 15, 30
  and 0 minutes.
\<close>

theorem calculate_eta_no_zero_division_witness:
  "calculate_eta_float (\<lambda>x. x) (Finite 10) (Some (Finite 0)) (Finite 40) = Inr 15
   \<and> calculate_eta_float (\<lambda>x. x) (Finite 10) None (Finite 40) = Inr 15
   \<and> calculate_eta_float (\<lambda>x. x) (Finite 10) (Some (Finite (- 3))) (Finite 40) = Inr 15
   \<and> calculate_eta_float (\<lambda>x. x) (Finite 10) (Some (Finite 20)) (Finite 40) = Inr 30
   \<and> calculate_eta_float (\<lambda>x. x) (Finite 10) (Some PosInf) (Finite 40) = Inr 0"
proof -
  have m: "mono (\<lambda>x::real. x)" by (simp add: mono_def)
  have z: "(\<lambda>x::real. x) 0 = 0" "(\<lambda>x::real. x) (2 ^ 1000) = 2 ^ 1000" by simp_all
  have s: "\<not> live_speed_used (Some (Finite 0))" "\<not> live_speed_used None"
    "\<not> live_speed_used (Some (Finite (- 3)))" "live_speed_used (Some (Finite 20))"
    "live_speed_used (Some PosInf)"
    by (simp_all add: live_speed_used_def)
  have o: "\<not> float_overflow \<le> 1 / 4" "\<not> float_overflow \<le> 15" "\<not> float_overflow \<le> 1 / 2"
    "\<not> float_overflow \<le> 30"
    using float_overflow_big by simp_all
  note w = calculate_eta_no_zero_division [OF m z, where distance_km = "Finite 10"]
  from w [of "Some (Finite 0)"] s o
  have a: "calculate_eta_float (\<lambda>x. x) (Finite 10) (Some (Finite 0)) (Finite 40) = Inr 15"
    by simp
  from w [of None] s o
  have b: "calculate_eta_float (\<lambda>x. x) (Finite 10) None (Finite 40) = Inr 15"
    by simp
  from w [of "Some (Finite (- 3))"] s o
  have c: "calculate_eta_float (\<lambda>x. x) (Finite 10) (Some (Finite (- 3))) (Finite 40) = Inr 15"
    by simp
  from w [of "Some (Finite 20)"] s o
  have d: "calculate_eta_float (\<lambda>x. x) (Finite 10) (Some (Finite 20)) (Finite 40) = Inr 30"
    by simp
  from w [of "Some PosInf"] s
  have e: "calculate_eta_float (\<lambda>x. x) (Finite 10) (Some PosInf) (Finite 40) = Inr 0"
    by simp
  from a b c d e show ?thesis by blast
qed

text \<open>
  A distance of \<open>1.5e308\<close> km is not negative, and at 40 km/h the product by 60 is beyond the
  largest double: \<open>int()\<close> raises \<open>OverflowError\<close>. So it does for an infinite distance; with
  an infinite live speed the quotient is NaN and \<open>int()\<close> raises \<open>ValueError\<close>.
\<close>

theorem calculate_eta_overflow_counterexample:
  "(0::real) \<le> 15 * 10 ^ 307
   \<and> calculate_eta_float (\<lambda>x. x) (Finite (15 * 10 ^ 307)) None (Finite 40) = Inl OverflowError
   \<and> calculate_eta_float (\<lambda>x. x) PosInf None (Finite 40) = Inl OverflowError
   \<and> calculate_eta_float (\<lambda>x. x) PosInf (Some PosInf) (Finite 40) = Inl ValueError"
  by (simp add: calculate_eta_float_def to_float_def float_overflow_def)

text \<open>
  The two models of \<open>calculate_eta\<close> agree wherever the quotient and the product stay within
  the range of doubles, up to rounding: with the exact rounding they return the same value.
\<close>

lemma calculate_eta_float_exact:
  assumes run: "calculate_eta d s a = Inr eta"
    and r1: "\<bar>d / (if truthy_float s \<and> 5 < the s then the s else a)\<bar> < float_overflow"
    and r2: "\<bar>d / (if truthy_float s \<and> 5 < the s then the s else a) * 60\<bar> < float_overflow"
  shows "calculate_eta_float (\<lambda>x. x) (Finite d) (map_option Finite s) (Finite a) = Inr eta"
proof -
  define v where "v = (if truthy_float s \<and> 5 < the s then the s else a)"
  have sp: "(if float_bool (map_option Finite s) \<and> float_gt (the (map_option Finite s)) 5
             then the (map_option Finite s) else Finite a) = Finite v"
    unfolding v_def by (cases s) (auto simp: truthy_float_def)
  from run have v: "v \<noteq> 0" and eta: "eta = py_int (d / v * 60)"
    unfolding calculate_eta_def Let_def v_def [symmetric] py_truediv_def
    by (auto split: if_splits)
  from r1 have b1: "d / v < float_overflow \<and> - (d / v) < float_overflow"
    unfolding v_def [symmetric] abs_less_iff .
  from r2 have b2: "d / v * 60 < float_overflow \<and> - (d / v * 60) < float_overflow"
    unfolding v_def [symmetric] abs_less_iff .
  have t1: "to_float (\<lambda>x. x) (d / v) = Finite (d / v)"
  proof -
    from b1 have "\<not> float_overflow \<le> d / v" "\<not> d / v \<le> - float_overflow" by linarith+
    then show ?thesis unfolding to_float_def by (simp only: if_False)
  qed
  have t2: "to_float (\<lambda>x. x) (d / v * 60) = Finite (d / v * 60)"
  proof -
    from b2 have "\<not> float_overflow \<le> d / v * 60" "\<not> d / v * 60 \<le> - float_overflow"
      by linarith+
    then show ?thesis unfolding to_float_def by (simp only: if_False)
  qed
  show ?thesis
    unfolding calculate_eta_float_def Let_def sp
    using v by (simp only: float_truediv.simps if_False py_float.case t1 sum.case
        float_mul.simps t2 float_int.simps eta)
qed

section \<open>Correction factors of the road-distance functions\<close>

text \<open>
  C8, as the code has it. For a successful provider response whose first route has raw distance
  \<open>d\<close> metres and raw duration \<open>s \<ge> 0\<close> seconds, \<open>get_road_distance\<close> and
  \<open>get_route_with_geometry\<close> return the distance \<open>(d / 1000) * 1.10\<close> km and the duration
  \<open>\<lfloor>(s / 60) * 1.25\<rfloor>\<close> minutes, and the duration is raised to 1 exactly when that floor is 0
  and the corrected distance exceeds 0.1 km, which is \<open>d > 1000 / 11\<close> metres (about 90.9 m), not
  \<open>d > 100\<close>.
\<close>

theorem road_duration_floor_on_corrected_distance:
  assumes resp: "provider (length calls) =
             (\<lambda>req. Response 200 \<lparr>data_code = Some ''Ok'', data_routes = route # rest\<rparr>)"
    and d: "route_distance route = Some d"
    and s: "route_duration route = Some s" "0 \<le> s"
  shows "fst (get_road_distance provider calls lat1 lon1 lat2 lon2 timeout) =
           (Some ((d / 1000) * 1.10),
            Some (if \<lfloor>(s / 60) * 1.25\<rfloor> = 0 \<and> d > 1000 / 11 then 1 else \<lfloor>(s / 60) * 1.25\<rfloor>))
       \<and> fst (get_route_with_geometry provider calls lat1 lon1 lat2 lon2 timeout') =
           (Some ((d / 1000) * 1.10),
            Some (if \<lfloor>(s / 60) * 1.25\<rfloor> = 0 \<and> d > 1000 / 11 then 1 else \<lfloor>(s / 60) * 1.25\<rfloor>),
            Some (get_or_empty (route_coordinates route)))"
proof -
  have a: "fst (get_road_distance provider calls lat1 lon1 lat2 lon2 timeout) =
           (Some ((d / 1000) * 1.10),
            Some (if \<lfloor>(s / 60) * 1.25\<rfloor> = 0 \<and> d > 1000 / 11 then 1 else \<lfloor>(s / 60) * 1.25\<rfloor>))"
    using s(2)
    by (auto simp add: get_road_distance_def http_get_def resp d s(1) get_or_zero_def Let_def
          DISTANCE_CORRECTION_FACTOR_def DURATION_CORRECTION_FACTOR_def py_int_def mult.commute)
  have b: "fst (get_route_with_geometry provider calls lat1 lon1 lat2 lon2 timeout') =
           (Some ((d / 1000) * 1.10),
            Some (if \<lfloor>(s / 60) * 1.25\<rfloor> = 0 \<and> d > 1000 / 11 then 1 else \<lfloor>(s / 60) * 1.25\<rfloor>),
            Some (get_or_empty (route_coordinates route)))"
    using s(2)
    by (auto simp add: get_route_with_geometry_def http_get_def resp d s(1) get_or_zero_def Let_def
          DISTANCE_CORRECTION_FACTOR_def DURATION_CORRECTION_FACTOR_def py_int_def mult.commute)
  from a b show ?thesis by blast
qed

text \<open>The theorem at a 17 km, 25 minute route: 18.7 km and 31 minutes.\<close>

theorem road_duration_floor_on_corrected_distance_witness:
  "fst (get_road_distance (osrm_stub 17000 1500 []) [] 19 72 19.2 72.1 5) = (Some 18.7, Some 31)
   \<and> fst (get_route_with_geometry (osrm_stub 17000 1500 []) [] 19 72 19.2 72.1 15)
       = (Some 18.7, Some 31, Some [])"
  using road_duration_floor_on_corrected_distance
     [where provider = "osrm_stub 17000 1500 []" and calls = "[]" and d = 17000 and s = 1500
        and route = "\<lparr>route_distance = Some 17000, route_duration = Some 1500,
                         route_coordinates = Some []\<rparr>" and rest = "[]"
        and ?lat1.0 = 19 and ?lon1.0 = 72 and ?lat2.0 = "19.2" and ?lon2.0 = "72.1"
        and timeout = 5 and timeout' = 15]
  by (simp add: osrm_stub_def get_or_empty_def)

text \<open>
  A route of 95 m and 10 s: the corrected duration rounds to 0 and the raw distance does not
  exceed 100 m, yet the returned duration is 1, because the corrected distance 0.1045 km
  exceeds 0.1 km.
\<close>

theorem raw_distance_95m_counterexample:
  "fst (get_road_distance (osrm_stub 95 10 []) [] 19 72 19.001 72 5) = (Some 0.1045, Some 1)
   \<and> \<lfloor>((10 :: real) / 60) * 1.25\<rfloor> = 0 \<and> \<not> (95 :: real) > 100"
  by (simp add: get_road_distance_def http_get_def osrm_stub_def get_or_zero_def
       DISTANCE_CORRECTION_FACTOR_def DURATION_CORRECTION_FACTOR_def py_int_def)

section \<open>The delivery gate of update_order\<close>

lemmas scenario_defs =
  two_orders_def with_receipt_def empty_state_def order1_def order2_def driver7_def admin1_def
  deliver_request_def start_and_sign_request_def start_request_def
  truthy_str_def truthy_int_def truthy_float_def Let_def

lemma find_SomeD: "find P xs = Some x \<Longrightarrow> P x"
  by (induction xs) (auto split: if_splits)

lemma find_update_first:
  "find P xs = Some x \<Longrightarrow> P y \<Longrightarrow> find P (update_first P (\<lambda>_. y) xs) = Some y"
  by (induction xs) (auto split: if_splits)

lemma update_order_success:
  assumes found: "find (\<lambda>row. o_id row = order_id) (orders db) = Some order"
    and run: "update_order order_id request current_user db = (Inr updated, db')"
  shows "o_id updated = order_id"
    and "db' = db\<lparr>orders := update_first (\<lambda>row. o_id row = order_id) (\<lambda>_. updated) (orders db)\<rparr>"
    and "req_status request = Some DELIVERED \<or> req_signature request \<noteq> None
           \<Longrightarrow> delivery_gate order_id request order db"
    and "o_status updated = DELIVERED \<Longrightarrow>
           o_status order = DELIVERED \<or> req_status request = Some DELIVERED
           \<or> req_signature request \<noteq> None"
proof -
  have oid: "o_id order = order_id"
    using find_SomeD [OF found] .
  show "o_id updated = order_id"
    using run oid unfolding update_order_def found Let_def
    by (auto split: if_splits option.splits)
  show "db' = db\<lparr>orders := update_first (\<lambda>row. o_id row = order_id) (\<lambda>_. updated) (orders db)\<rparr>"
    using run unfolding update_order_def found Let_def
    by (auto split: if_splits option.splits)
  show "delivery_gate order_id request order db"
    if "req_status request = Some DELIVERED \<or> req_signature request \<noteq> None"
    using run that unfolding update_order_def found Let_def delivery_gate_def
    by (auto split: if_splits option.splits)
  show "o_status order = DELIVERED \<or> req_status request = Some DELIVERED
           \<or> req_signature request \<noteq> None" if "o_status updated = DELIVERED"
    using run that unfolding update_order_def found Let_def
    by (auto split: if_splits option.splits simp: truthy_str_def)
qed

lemma find_Some_list_ex: "(find P xs \<noteq> None) = list_ex P xs"
  by (induction xs) auto

lemma update_order_not_found:
  "find (\<lambda>row. o_id row = order_id) (orders db) = None \<Longrightarrow>
     update_order order_id request current_user db
       = (Inl (HTTPException 404 [Text ''Order not found'']), db)"
  by (simp add: update_order_def)

lemma update_order_error_unchanged:
  "update_order order_id request current_user db = (Inl e, db') \<Longrightarrow> db' = db"
  unfolding update_order_def Let_def
  by (auto split: if_splits option.splits)

lemma update_order_conflict_result:
  assumes found: "find (\<lambda>row. o_id row = order_id) (orders db) = Some order"
    and conflict: "driver_conflict order_id request current_user (orders db)"
  shows "\<exists>active \<in> set (orders db).
           o_driver_id active = Some (u_id current_user) \<and> o_status active = IN_TRANSIT
           \<and> o_id active \<noteq> order_id
           \<and> update_order order_id request current_user db
               = (Inl (HTTPException 409
                        [Text ''You already have an active delivery (Order #'',
                         Num (o_id active),
                         Text ''). Complete it before starting a new one.'']), db)"
proof -
  let ?P = "\<lambda>row. o_driver_id row = Some (u_id current_user) \<and> o_status row = IN_TRANSIT
                        \<and> o_id row \<noteq> order_id"
  from conflict have "find ?P (orders db) \<noteq> None"
    unfolding driver_conflict_def find_Some_list_ex by simp
  then obtain active where a: "find ?P (orders db) = Some active" by blast
  then have "active \<in> set (orders db)" "?P active"
    by (auto simp: find_Some_iff)
  moreover have "update_order order_id request current_user db
               = (Inl (HTTPException 409
                        [Text ''You already have an active delivery (Order #'',
                         Num (o_id active),
                         Text ''). Complete it before starting a new one.'']), db)"
    using conflict a unfolding update_order_def found driver_conflict_def by simp
  ultimately show ?thesis by blast
qed

lemma update_order_no_conflict:
  assumes "\<not> driver_conflict order_id request current_user (orders db)"
  shows "(if req_status request = Some IN_TRANSIT \<and> u_role current_user = DRIVER
          then find (\<lambda>row. o_driver_id row = Some (u_id current_user)
                           \<and> o_status row = IN_TRANSIT \<and> o_id row \<noteq> order_id) (orders db)
          else None) = None"
  using assms unfolding driver_conflict_def find_Some_list_ex [symmetric] by auto

lemma update_order_gate_result:
  assumes found: "find (\<lambda>row. o_id row = order_id) (orders db) = Some order"
    and free: "\<not> driver_conflict order_id request current_user (orders db)"
    and trigger: "delivery_trigger request"
    and closed: "\<not> delivery_gate order_id request order db"
  shows "update_order order_id request current_user db
           = (Inl (HTTPException 400
                    [Text (if \<not> truthy_str (req_otp_input request)
                           then ''OTP is required to complete delivery''
                           else if req_otp_input request \<noteq> o_otp order
                           then ''Invalid OTP. Please verify with customer''
                           else ''Cannot mark as delivered: Sale receipt is required'')]), db)"
  using trigger closed
  unfolding update_order_def found update_order_no_conflict [OF free] Let_def
    delivery_gate_def delivery_trigger_def
  by auto

lemma update_order_accepts:
  assumes found: "find (\<lambda>row. o_id row = order_id) (orders db) = Some order"
    and free: "\<not> driver_conflict order_id request current_user (orders db)"
    and ok: "\<not> (delivery_trigger request \<and> \<not> delivery_gate order_id request order db)"
  shows "\<exists>updated. fst (update_order order_id request current_user db) = Inr updated"
  using ok
  unfolding update_order_def found update_order_no_conflict [OF free] Let_def
    delivery_gate_def delivery_trigger_def
  by auto

text \<open>
  C1, as the code has it. An update of an order that does not exist is answered 404. For an
  existing order there are three cases, and in every case that ends in an error the state is
  left as it was:

  \<^item> the caller is a driver, the request sets \<open>status = IN_TRANSIT\<close> and the driver has
    another order IN_TRANSIT: the conflict 409 naming that order, whatever else the request
    carries, since this check comes first;
  \<^item> otherwise, the request sets \<open>status = DELIVERED\<close> or carries a non-null \<open>signature\<close>,
    and the OTP or the receipt check fails: the validation error 400, the same for both
    triggers ("OTP is required" for a missing or empty \<open>otp_input\<close>, "Invalid OTP" for one
    that differs from the stored \<open>otp\<close>, "Sale receipt is required" when the order has no
    receipt);
  \<^item> otherwise the update succeeds and changes that order only; and if the order's status
    was not DELIVERED and now is, then the request carried one of the two triggers, an
    \<open>otp_input\<close> equal to the stored \<open>otp\<close>, and the order has a receipt.
\<close>

theorem update_order_delivery_gate:
  assumes run: "update_order order_id request current_user db = (result, db')"
  shows "(\<forall>e. result = Inl e \<longrightarrow> db' = db)
       \<and> (find (\<lambda>row. o_id row = order_id) (orders db) = None
            \<longrightarrow> result = Inl (HTTPException 404 [Text ''Order not found'']))
       \<and> (\<forall>order. find (\<lambda>row. o_id row = order_id) (orders db) = Some order \<longrightarrow>
            (if driver_conflict order_id request current_user (orders db) then
               \<exists>active \<in> set (orders db).
                  o_driver_id active = Some (u_id current_user) \<and> o_status active = IN_TRANSIT
                  \<and> o_id active \<noteq> order_id
                  \<and> result = Inl (HTTPException 409
                                   [Text ''You already have an active delivery (Order #'',
                                    Num (o_id active),
                                    Text ''). Complete it before starting a new one.''])
             else if delivery_trigger request \<and> \<not> delivery_gate order_id request order db then
               result = Inl (HTTPException 400
                              [Text (if \<not> truthy_str (req_otp_input request)
                                     then ''OTP is required to complete delivery''
                                     else if req_otp_input request \<noteq> o_otp order
                                     then ''Invalid OTP. Please verify with customer''
                                     else ''Cannot mark as delivered: Sale receipt is required'')])
             else
               \<exists>updated. result = Inr updated
                  \<and> db' = db\<lparr>orders := update_first (\<lambda>row. o_id row = order_id) (\<lambda>_. updated)
                                          (orders db)\<rparr>
                  \<and> find (\<lambda>row. o_id row = order_id) (orders db') = Some updated
                  \<and> (o_status updated = DELIVERED \<and> o_status order \<noteq> DELIVERED
                       \<longrightarrow> delivery_trigger request
                           \<and> delivery_gate order_id request order db)))"
proof (intro conjI allI impI)
  fix e assume "result = Inl e"
  with run show "db' = db" using update_order_error_unchanged by blast
next
  assume "find (\<lambda>row. o_id row = order_id) (orders db) = None"
  from update_order_not_found [OF this, of request current_user] run
  show "result = Inl (HTTPException 404 [Text ''Order not found''])" by simp
next
  fix order
  assume found: "find (\<lambda>row. o_id row = order_id) (orders db) = Some order"
  show "if driver_conflict order_id request current_user (orders db) then
               \<exists>active \<in> set (orders db).
                  o_driver_id active = Some (u_id current_user) \<and> o_status active = IN_TRANSIT
                  \<and> o_id active \<noteq> order_id
                  \<and> result = Inl (HTTPException 409
                                   [Text ''You already have an active delivery (Order #'',
                                    Num (o_id active),
                                    Text ''). Complete it before starting a new one.''])
             else if delivery_trigger request \<and> \<not> delivery_gate order_id request order db then
               result = Inl (HTTPException 400
                              [Text (if \<not> truthy_str (req_otp_input request)
                                     then ''OTP is required to complete delivery''
                                     else if req_otp_input request \<noteq> o_otp order
                                     then ''Invalid OTP. Please verify with customer''
                                     else ''Cannot mark as delivered: Sale receipt is required'')])
             else
               \<exists>updated. result = Inr updated
                  \<and> db' = db\<lparr>orders := update_first (\<lambda>row. o_id row = order_id) (\<lambda>_. updated)
                                          (orders db)\<rparr>
                  \<and> find (\<lambda>row. o_id row = order_id) (orders db') = Some updated
                  \<and> (o_status updated = DELIVERED \<and> o_status order \<noteq> DELIVERED
                       \<longrightarrow> delivery_trigger request
                           \<and> delivery_gate order_id request order db)"
  proof (cases "driver_conflict order_id request current_user (orders db)")
    case True
    from update_order_conflict_result [OF found True] run True
    show ?thesis by auto
  next
    case free: False
    show ?thesis
    proof (cases "delivery_trigger request \<and> \<not> delivery_gate order_id request order db")
      case True
      then have t: "delivery_trigger request" and c: "\<not> delivery_gate order_id request order db"
        by simp_all
      from update_order_gate_result [OF found free t c] run free True
      show ?thesis by simp
    next
      case False
      from update_order_accepts [OF found free False] run
      obtain updated where r: "result = Inr updated" by auto
      with run have run': "update_order order_id request current_user db = (Inr updated, db')"
        by simp
      note s = update_order_success [OF found run']
      have "find (\<lambda>row. o_id row = order_id) (orders db') = Some updated"
        using find_update_first [OF found, of updated] s(1) s(2) by simp
      moreover have "o_status updated = DELIVERED \<and> o_status order \<noteq> DELIVERED
                       \<longrightarrow> delivery_trigger request \<and> delivery_gate order_id request order db"
        using s(3) s(4) unfolding delivery_trigger_def by blast
      ultimately show ?thesis
        using free False r s(2) by simp
    qed
  qed
qed

text \<open>
  The scenario of the specification: OTP 482913 supplied and correct, no receipt recorded; the
  request is rejected with "Sale receipt is required" and nothing changes. With one receipt
  recorded the order is DELIVERED.
\<close>

theorem update_order_delivery_gate_witness:
  "update_order 1 deliver_request driver7 two_orders
     = (Inl (HTTPException 400 [Text ''Cannot mark as delivered: Sale receipt is required'']),
        two_orders)
   \<and> map o_status (orders (snd (update_order 1 deliver_request driver7 with_receipt)))
       = [DELIVERED, IN_TRANSIT]
   \<and> delivery_trigger deliver_request
   \<and> delivery_gate 1 deliver_request order1 with_receipt"
proof -
  have f1: "find (\<lambda>row. o_id row = 1) (orders two_orders) = Some order1"
    by (simp add: two_orders_def empty_state_def order1_def)
  have n1: "\<not> driver_conflict 1 deliver_request driver7 (orders two_orders)"
    by (simp add: driver_conflict_def deliver_request_def)
  have g1: "\<not> delivery_gate 1 deliver_request order1 two_orders"
    by (simp add: delivery_gate_def two_orders_def empty_state_def)
  have t1: "delivery_trigger deliver_request"
    by (simp add: delivery_trigger_def deliver_request_def)
  have o1: "truthy_str (req_otp_input deliver_request)"
    "req_otp_input deliver_request = o_otp order1"
    by (simp_all add: scenario_defs)
  have f2: "find (\<lambda>row. o_id row = 1) (orders with_receipt) = Some order1"
    by (simp add: with_receipt_def two_orders_def empty_state_def order1_def)
  have n2: "\<not> driver_conflict 1 deliver_request driver7 (orders with_receipt)"
    by (simp add: driver_conflict_def deliver_request_def)
  have r2: "map o_status (orders (snd (update_order 1 deliver_request driver7 with_receipt)))
       = [DELIVERED, IN_TRANSIT]"
    by (simp add: update_order_def scenario_defs)
  have s2: "o_status order1 \<noteq> DELIVERED"
    by (simp add: order1_def)
  note w1 = update_order_delivery_gate [OF surjective_pairing,
         where order_id = 1 and request = deliver_request and current_user = driver7
           and db = two_orders]
  from w1 [THEN conjunct2, THEN conjunct2, rule_format, OF f1] n1 t1 g1 o1
  have a1: "fst (update_order 1 deliver_request driver7 two_orders)
     = Inl (HTTPException 400 [Text ''Cannot mark as delivered: Sale receipt is required''])"
    by simp
  with w1 [THEN conjunct1]
  have a2: "snd (update_order 1 deliver_request driver7 two_orders) = two_orders"
    by simp
  from a1 a2 have a: "update_order 1 deliver_request driver7 two_orders
     = (Inl (HTTPException 400 [Text ''Cannot mark as delivered: Sale receipt is required'']),
        two_orders)"
    by (metis prod.collapse)
  note w2 = update_order_delivery_gate [OF surjective_pairing,
         where order_id = 1 and request = deliver_request and current_user = driver7
           and db = with_receipt]
  have b: "delivery_gate 1 deliver_request order1 with_receipt"
  proof (rule ccontr)
    assume c: "\<not> delivery_gate 1 deliver_request order1 with_receipt"
    from w2 [THEN conjunct2, THEN conjunct2, rule_format, OF f2] n2 t1 c
    have "\<exists>e. fst (update_order 1 deliver_request driver7 with_receipt) = Inl e"
      by simp
    with w2 [THEN conjunct1]
    have "snd (update_order 1 deliver_request driver7 with_receipt) = with_receipt"
      by blast
    with r2 show False
      by (simp add: scenario_defs)
  qed
  from a r2 t1 b show ?thesis by blast
qed

text \<open>
  A request that carries a signature (so asks for delivery) without any OTP, and also sets
  \<open>status = IN_TRANSIT\<close>, from a driver whose order 2 is in transit: the error is the conflict
  409, not a validation error.
\<close>

theorem start_and_sign_conflict_counterexample:
  "update_order 1 start_and_sign_request driver7 two_orders =
     (Inl (HTTPException 409
            [Text ''You already have an active delivery (Order #'', Num 2,
             Text ''). Complete it before starting a new one.'']), two_orders)
   \<and> req_signature start_and_sign_request \<noteq> None
   \<and> \<not> delivery_gate 1 start_and_sign_request order1 two_orders"
  by (simp add: update_order_def delivery_gate_def scenario_defs)

section \<open>The single-active-delivery check of update_order\<close>
lemmas scenario_defs2 = scenario_defs three_orders_def order3_def assign_request_def

lemma single_active_delivery_iff:
  "single_active_delivery rows \<longleftrightarrow> (\<forall>d. length (in_transit_orders d rows) \<le> 1)"
proof
  assume a: "single_active_delivery rows"
  show "\<forall>d. length (in_transit_orders d rows) \<le> 1"
  proof
    fix d
    show "length (in_transit_orders d rows) \<le> 1"
    proof (cases "\<exists>row \<in> set rows. o_driver_id row = Some d")
      case True
      then obtain row where "row \<in> set rows" "o_driver_id row = Some d" by blast
      with a show ?thesis
        by (auto simp: single_active_delivery_def list_all_iff split: option.splits)
    next
      case False
      then have "in_transit_orders d rows = []"
        by (auto simp: in_transit_orders_def filter_empty_conv)
      then show ?thesis by simp
    qed
  qed
next
  assume "\<forall>d. length (in_transit_orders d rows) \<le> 1"
  then show "single_active_delivery rows"
    by (auto simp: single_active_delivery_def list_all_iff split: option.splits)
qed

lemma length_filter_update_first:
  "find Q xs = Some x \<Longrightarrow>
     length (filter P (update_first Q f xs)) + (if P x then 1 else 0)
       = length (filter P xs) + (if P (f x) then 1 else 0)"
  by (induction xs) (auto split: if_splits)

lemma filter_primary_key:
  "distinct (map o_id rows) \<Longrightarrow> find (\<lambda>row. o_id row = k) rows = Some ord
     \<Longrightarrow> filter (\<lambda>row. o_id row = k) rows = [ord]"
proof (induction rows)
  case Nil
  then show ?case by simp
next
  case (Cons r rs)
  show ?case
  proof (cases "o_id r = k")
    case True
    with Cons.prems have "ord = r" and "k \<notin> o_id ` set rs" by auto
    then have "filter (\<lambda>row. o_id row = k) rs = []"
      by (auto simp: filter_empty_conv)
    with True \<open>ord = r\<close> show ?thesis by simp
  next
    case False
    with Cons show ?thesis by simp
  qed
qed

lemma no_other_in_transit:
  assumes none: "find (\<lambda>row. o_driver_id row = Some d \<and> o_status row = IN_TRANSIT
                          \<and> o_id row \<noteq> k) rows = None"
    and pk: "distinct (map o_id rows)"
    and found: "find (\<lambda>row. o_id row = k) rows = Some ord"
  shows "length (in_transit_orders d rows)
           = (if o_driver_id ord = Some d \<and> o_status ord = IN_TRANSIT then 1 else 0)"
proof -
  from none have all: "\<forall>row \<in> set rows. o_driver_id row = Some d \<and> o_status row = IN_TRANSIT
                          \<longrightarrow> o_id row = k"
    by (auto simp: find_None_iff)
  have "in_transit_orders d rows =
          filter (\<lambda>row. o_driver_id row = Some d \<and> o_status row = IN_TRANSIT)
            (filter (\<lambda>row. o_id row = k) rows)"
    unfolding in_transit_orders_def filter_filter
    by (rule filter_cong) (use all in auto)
  also have "\<dots> = filter (\<lambda>row. o_driver_id row = Some d \<and> o_status row = IN_TRANSIT) [ord]"
    by (simp only: filter_primary_key [OF pk found])
  finally show ?thesis by simp
qed

lemma update_order_in_transit:
  assumes found: "find (\<lambda>row. o_id row = order_id) (orders db) = Some order"
    and run: "update_order order_id request current_user db = (Inr updated, db')"
    and it: "o_status updated = IN_TRANSIT"
  shows "o_driver_id updated = o_driver_id order"
    and "o_status order \<noteq> IN_TRANSIT \<Longrightarrow> req_status request = Some IN_TRANSIT"
    and "req_status request = Some IN_TRANSIT \<Longrightarrow> u_role current_user = DRIVER \<Longrightarrow>
           find (\<lambda>row. o_driver_id row = Some (u_id current_user) \<and> o_status row = IN_TRANSIT
                     \<and> o_id row \<noteq> order_id) (orders db) = None"
proof -
  show "o_driver_id updated = o_driver_id order"
    using run it unfolding update_order_def found Let_def
    by (auto split: if_splits option.splits)
  show "req_status request = Some IN_TRANSIT" if "o_status order \<noteq> IN_TRANSIT"
    using run it that unfolding update_order_def found Let_def
    by (auto split: if_splits option.splits)
  show "find (\<lambda>row. o_driver_id row = Some (u_id current_user) \<and> o_status row = IN_TRANSIT
                     \<and> o_id row \<noteq> order_id) (orders db) = None"
    if "req_status request = Some IN_TRANSIT" "u_role current_user = DRIVER"
    using run that unfolding update_order_def found Let_def
    by (auto split: if_splits option.splits)
qed

lemma update_order_keeps_invariant:
  assumes found: "find (\<lambda>row. o_id row = order_id) (orders db) = Some order"
    and run: "update_order order_id request current_user db = (Inr updated, db')"
    and pk: "distinct (map o_id (orders db))"
    and inv: "single_active_delivery (orders db)"
    and own: "o_status updated = IN_TRANSIT \<and> o_status order \<noteq> IN_TRANSIT
                \<longrightarrow> u_role current_user = DRIVER \<and> o_driver_id order = Some (u_id current_user)"
  shows "single_active_delivery (orders db')"
  unfolding single_active_delivery_iff
proof
  fix d
  let ?P = "\<lambda>row. o_driver_id row = Some d \<and> o_status row = IN_TRANSIT"
  have rows': "orders db' = update_first (\<lambda>row. o_id row = order_id) (\<lambda>_. updated) (orders db)"
    using update_order_success(2) [OF found run] by simp
  have cnt: "length (in_transit_orders d (orders db')) + (if ?P order then 1 else 0)
               = length (in_transit_orders d (orders db)) + (if ?P updated then 1 else 0)"
    unfolding in_transit_orders_def rows'
    using length_filter_update_first [OF found, of ?P "\<lambda>_. updated"] by simp
  have old: "length (in_transit_orders d (orders db)) \<le> 1"
    using inv unfolding single_active_delivery_iff by blast
  show "length (in_transit_orders d (orders db')) \<le> 1"
  proof (cases "?P updated")
    case False
    with cnt old show ?thesis by (simp split: if_splits)
  next
    case True
    then have it: "o_status updated = IN_TRANSIT" and dr: "o_driver_id updated = Some d"
      by simp_all
    note u = update_order_in_transit [OF found run it]
    show ?thesis
    proof (cases "o_status order = IN_TRANSIT")
      case True
      with u(1) dr have "?P order" by simp
      with cnt old show ?thesis by (simp split: if_splits)
    next
      case False
      with own it have role: "u_role current_user = DRIVER"
        and mine: "o_driver_id order = Some (u_id current_user)" by simp_all
      from u(1) dr mine have d: "d = u_id current_user" by simp
      from u(3) [OF u(2) [OF False] role]
      have "length (in_transit_orders d (orders db)) = 0"
        using no_other_in_transit [OF _ pk found, of d] False d by simp
      with cnt show ?thesis by (simp split: if_splits)
    qed
  qed
qed

text \<open>
  C2, as the code has it, for a request that runs alone: \<open>update_order\<close> is a function of the
  state it finds, with no other request between its query for an active delivery and its
  commit. (The handler takes no lock, so two overlapping requests are not covered.)

  The single-active-delivery check of \<open>update_order\<close> is made only for a caller whose role is
  driver, and against the caller's own id. So: a driver who asks for IN_TRANSIT on an existing
  order while another order of theirs is IN_TRANSIT is rejected with the conflict 409 naming
  that order, and nothing changes (for an order that does not exist the answer is 404, and
  nothing changes). And an update, whatever its result, keeps the invariant "at most one
  IN_TRANSIT order per driver" (order ids being a primary key) whenever it does not newly put
  the order IN_TRANSIT, or is made by a driver-role caller who is the driver the order is
  assigned to. An update by an admin, and the assignment of a driver, are not checked.
\<close>

theorem driver_start_single_active_delivery:
  assumes run: "update_order order_id request current_user db = (result, db')"
  shows "(driver_conflict order_id request current_user (orders db) \<longrightarrow>
            db' = db
            \<and> (if find (\<lambda>row. o_id row = order_id) (orders db) = None
                then result = Inl (HTTPException 404 [Text ''Order not found''])
                else \<exists>active \<in> set (orders db).
                       o_driver_id active = Some (u_id current_user)
                       \<and> o_status active = IN_TRANSIT \<and> o_id active \<noteq> order_id
                       \<and> result = Inl (HTTPException 409
                                        [Text ''You already have an active delivery (Order #'',
                                         Num (o_id active),
                                         Text ''). Complete it before starting a new one.''])))
       \<and> (distinct (map o_id (orders db)) \<and> single_active_delivery (orders db)
            \<and> (\<forall>order updated.
                  find (\<lambda>row. o_id row = order_id) (orders db) = Some order
                  \<and> result = Inr updated
                  \<and> o_status updated = IN_TRANSIT \<and> o_status order \<noteq> IN_TRANSIT
                  \<longrightarrow> u_role current_user = DRIVER
                      \<and> o_driver_id order = Some (u_id current_user))
            \<longrightarrow> single_active_delivery (orders db'))"
proof (intro conjI impI)
  assume c: "driver_conflict order_id request current_user (orders db)"
  show "db' = db"
  proof (cases "find (\<lambda>row. o_id row = order_id) (orders db)")
    case None
    from update_order_not_found [OF this, of request current_user] run show ?thesis by simp
  next
    case (Some order)
    from update_order_conflict_result [OF Some c] run show ?thesis by auto
  qed
  show "if find (\<lambda>row. o_id row = order_id) (orders db) = None
                then result = Inl (HTTPException 404 [Text ''Order not found''])
                else \<exists>active \<in> set (orders db).
                       o_driver_id active = Some (u_id current_user)
                       \<and> o_status active = IN_TRANSIT \<and> o_id active \<noteq> order_id
                       \<and> result = Inl (HTTPException 409
                                        [Text ''You already have an active delivery (Order #'',
                                         Num (o_id active),
                                         Text ''). Complete it before starting a new one.''])"
  proof (cases "find (\<lambda>row. o_id row = order_id) (orders db)")
    case None
    from update_order_not_found [OF this, of request current_user] run None
    show ?thesis by simp
  next
    case (Some order)
    from update_order_conflict_result [OF Some c] run Some show ?thesis by auto
  qed
next
  assume b: "distinct (map o_id (orders db)) \<and> single_active_delivery (orders db)
            \<and> (\<forall>order updated.
                  find (\<lambda>row. o_id row = order_id) (orders db) = Some order
                  \<and> result = Inr updated
                  \<and> o_status updated = IN_TRANSIT \<and> o_status order \<noteq> IN_TRANSIT
                  \<longrightarrow> u_role current_user = DRIVER
                      \<and> o_driver_id order = Some (u_id current_user))"
  show "single_active_delivery (orders db')"
  proof (cases result)
    case (Inl e)
    with run have "db' = db" using update_order_error_unchanged by blast
    with b show ?thesis by simp
  next
    case (Inr updated)
    with run have run': "update_order order_id request current_user db = (Inr updated, db')"
      by simp
    show ?thesis
    proof (cases "find (\<lambda>row. o_id row = order_id) (orders db)")
      case None
      from update_order_not_found [OF this, of request current_user] run' show ?thesis by simp
    next
      case (Some order)
      from b Some Inr
      have own: "o_status updated = IN_TRANSIT \<and> o_status order \<noteq> IN_TRANSIT
                \<longrightarrow> u_role current_user = DRIVER \<and> o_driver_id order = Some (u_id current_user)"
        by blast
      from update_order_keeps_invariant [OF Some run' _ _ own] b show ?thesis by blast
    qed
  qed
qed

text \<open>
  Driver 7 has order 2 in transit and asks to start order 1: conflict, nothing changes. Driver
  7 has order 1 assigned and nothing in transit, and asks to start order 1: the order goes
  IN_TRANSIT and the invariant holds afterwards.
\<close>

lemmas scenario_defs7 = scenario_defs2 driver_idle_def

theorem driver_start_single_active_delivery_witness:
  "update_order 1 start_request driver7 two_orders
     = (Inl (HTTPException 409
              [Text ''You already have an active delivery (Order #'', Num 2,
               Text ''). Complete it before starting a new one.'']), two_orders)
   \<and> single_active_delivery (orders driver_idle)
   \<and> map (\<lambda>row. (o_id row, o_driver_id row, o_status row))
        (orders (snd (update_order 1 start_request driver7 driver_idle)))
       = [(1, Some 7, IN_TRANSIT), (3, None, PENDING)]
   \<and> single_active_delivery (orders (snd (update_order 1 start_request driver7 driver_idle)))"
proof -
  have c: "driver_conflict 1 start_request driver7 (orders two_orders)"
    by (simp add: driver_conflict_def scenario_defs)
  have f1: "find (\<lambda>row. o_id row = 1) (orders two_orders) \<noteq> None"
    by (simp add: scenario_defs)
  have ids: "map o_id (orders two_orders) = [1, 2]"
    "map (\<lambda>row. (o_id row, o_driver_id row, o_status row)) (orders two_orders)
       = [(1, Some 7, ASSIGNED), (2, Some 7, IN_TRANSIT)]"
    by (simp_all add: scenario_defs)
  from driver_start_single_active_delivery [OF surjective_pairing,
         where order_id = 1 and request = start_request and current_user = driver7
           and db = two_orders] c f1
  have a1: "snd (update_order 1 start_request driver7 two_orders) = two_orders"
    and a2: "\<exists>active \<in> set (orders two_orders).
               o_driver_id active = Some (u_id driver7)
               \<and> o_status active = IN_TRANSIT \<and> o_id active \<noteq> 1
               \<and> fst (update_order 1 start_request driver7 two_orders)
                  = Inl (HTTPException 409
                          [Text ''You already have an active delivery (Order #'',
                           Num (o_id active),
                           Text ''). Complete it before starting a new one.''])"
    by simp_all
  from a2 have "fst (update_order 1 start_request driver7 two_orders)
                  = Inl (HTTPException 409
                          [Text ''You already have an active delivery (Order #'', Num 2,
                           Text ''). Complete it before starting a new one.''])"
    by (auto simp: scenario_defs)
  with a1 have a: "update_order 1 start_request driver7 two_orders
     = (Inl (HTTPException 409
              [Text ''You already have an active delivery (Order #'', Num 2,
               Text ''). Complete it before starting a new one.'']), two_orders)"
    by (metis prod.collapse)
  have pk: "distinct (map o_id (orders driver_idle))"
    by (simp add: scenario_defs7)
  have inv: "single_active_delivery (orders driver_idle)"
    by (simp add: single_active_delivery_def in_transit_orders_def scenario_defs7)
  have own: "u_role driver7 = DRIVER"
    "find (\<lambda>row. o_id row = 1) (orders driver_idle) = Some order1"
    "o_driver_id order1 = Some (u_id driver7)"
    by (simp_all add: scenario_defs7)
  have r: "map (\<lambda>row. (o_id row, o_driver_id row, o_status row))
        (orders (snd (update_order 1 start_request driver7 driver_idle)))
       = [(1, Some 7, IN_TRANSIT), (3, None, PENDING)]"
    by (simp add: update_order_def scenario_defs7)
  from driver_start_single_active_delivery [OF surjective_pairing,
         where order_id = 1 and request = start_request and current_user = driver7
           and db = driver_idle] pk inv own
  have b: "single_active_delivery (orders (snd (update_order 1 start_request driver7 driver_idle)))"
    by auto
  from a inv r b show ?thesis by blast
qed

text \<open>
  The same state, but the caller is an admin: order 1 of driver 7 goes IN_TRANSIT while order 2
  of driver 7 is IN_TRANSIT, and the invariant is lost. And an admin assigns the pending order 3
  to driver 7, who has order 2 in transit: accepted, the order is ASSIGNED.
\<close>

theorem admin_start_second_delivery_counterexample:
  "single_active_delivery (orders two_orders)
   \<and> fst (update_order 1 start_request admin1 two_orders) = Inr (order1\<lparr>o_status := IN_TRANSIT\<rparr>)
   \<and> map (\<lambda>row. (o_id row, o_driver_id row, o_status row))
        (orders (snd (update_order 1 start_request admin1 two_orders)))
       = [(1, Some 7, IN_TRANSIT), (2, Some 7, IN_TRANSIT)]
   \<and> \<not> single_active_delivery (orders (snd (update_order 1 start_request admin1 two_orders)))
   \<and> fst (update_order 3 assign_request admin1 three_orders)
       = Inr (order3\<lparr>o_driver_id := Some 7, o_status := ASSIGNED\<rparr>)"
  by (simp add: update_order_def single_active_delivery_def in_transit_orders_def scenario_defs2)

section \<open>Cancelling an order that has payments\<close>

lemmas scenario_defs3 = scenario_defs2 part_paid_def





section \<open>Invalidation of the route cache and the selected-route index\<close>

lemmas scenario_defs4 = scenario_defs3 tracked_def cached_route2_def

lemma select_route_caches:
  assumes "select_route order_id idx current_user st = (Inr r, st')"
  shows "route_cache st' order_id = None \<and> selected_route_cache st' order_id = Some idx"
  using assms unfolding select_route_def Let_def
  by (cases "route_cache st order_id") (auto split: option.splits if_splits)

lemma recalculate_route_success:
  assumes "recalculate_route provider order_id lat lng current_user st
             = (Inr (ok, routes, sel), st')"
  shows "routes \<noteq> [] \<and> sel = 0 \<and> selected_route_cache st' order_id = Some 0
         \<and> (\<exists>clat clng. route_cache st' order_id
               = Some (lat, lng, clat, clng, ro_coordinates (hd routes)))"
  using assms unfolding recalculate_route_def Let_def
  by (cases "route_cache st order_id")
     (auto split: option.splits if_splits prod.splits list.splits)

lemma recalculate_route_no_routes:
  assumes "recalculate_route provider order_id lat lng current_user st
             = (Inl (HTTPException 404 [Text ''Could not calculate new routes'']), st')"
  shows "route_cache st' order_id = None \<and> selected_route_cache st' order_id = Some 0"
  using assms unfolding recalculate_route_def Let_def
  by (cases "route_cache st order_id")
     (auto split: option.splits if_splits prod.splits list.splits)

lemma order_handlers_leave_caches:
  "route_cache (snd (cancel_order order_id current_user st)) = route_cache st"
  "selected_route_cache (snd (cancel_order order_id current_user st)) = selected_route_cache st"
  "route_cache (snd (delete_order order_id current_user st)) = route_cache st"
  "selected_route_cache (snd (delete_order order_id current_user st)) = selected_route_cache st"
  "route_cache (snd (update_order order_id request current_user st)) = route_cache st"
  "selected_route_cache (snd (update_order order_id request current_user st))
     = selected_route_cache st"
  by (auto simp: cancel_order_def delete_order_def update_order_def Let_def
        split: option.splits if_splits)

text \<open>
  C5, as the code has it. Selecting a route removes the order's route-cache entry and sets its
  selected-route index to the chosen index. A recalculation removes the entry and resets the
  index to 0; when routes are found it then stores a fresh entry taken at the driver's position,
  and when none is found both stay invalidated. The handlers through which an order reaches a
  terminal status (\<open>update_order\<close> for DELIVERED, \<open>cancel_order\<close> and \<open>delete_order\<close> for
  CANCELLED) do not touch either map.
\<close>

theorem route_caches_cleared_by_route_requests_only:
  "(\<forall>r st'. select_route order_id idx current_user st = (Inr r, st')
       \<longrightarrow> route_cache st' order_id = None \<and> selected_route_cache st' order_id = Some idx)
   \<and> (\<forall>ok routes sel st'.
         recalculate_route provider order_id lat lng current_user st = (Inr (ok, routes, sel), st')
       \<longrightarrow> routes \<noteq> [] \<and> sel = 0 \<and> selected_route_cache st' order_id = Some 0
           \<and> (\<exists>clat clng. route_cache st' order_id
                 = Some (lat, lng, clat, clng, ro_coordinates (hd routes))))
   \<and> (\<forall>st'. recalculate_route provider order_id lat lng current_user st
               = (Inl (HTTPException 404 [Text ''Could not calculate new routes'']), st')
       \<longrightarrow> route_cache st' order_id = None \<and> selected_route_cache st' order_id = Some 0)
   \<and> route_cache (snd (cancel_order order_id current_user st)) = route_cache st
   \<and> selected_route_cache (snd (cancel_order order_id current_user st)) = selected_route_cache st
   \<and> route_cache (snd (delete_order order_id current_user st)) = route_cache st
   \<and> selected_route_cache (snd (delete_order order_id current_user st)) = selected_route_cache st
   \<and> route_cache (snd (update_order order_id request current_user st)) = route_cache st
   \<and> selected_route_cache (snd (update_order order_id request current_user st))
       = selected_route_cache st"
  using select_route_caches [of order_id idx current_user st]
    recalculate_route_success [of provider order_id lat lng current_user st]
    recalculate_route_no_routes [of provider order_id lat lng current_user st]
    order_handlers_leave_caches(1-4) [where order_id = order_id and current_user = current_user
       and st = st]
    order_handlers_leave_caches(5,6) [where order_id = order_id and request = request
       and current_user = current_user and st = st]
  by blast

text \<open>
  On the tracked order 2: driver 7 selects route 0, and the cache entry is gone with the index
  set to 0; the provider being down, a recalculation leaves no entry and index 0.
\<close>

theorem route_caches_cleared_by_route_requests_only_witness:
  "fst (select_route 2 0 driver7 tracked) = Inr (True, 0)
   \<and> route_cache (snd (select_route 2 0 driver7 tracked)) 2 = None
   \<and> selected_route_cache (snd (select_route 2 0 driver7 tracked)) 2 = Some 0
   \<and> fst (recalculate_route osrm_down 2 19.1 72.9 driver7 tracked)
       = Inl (HTTPException 404 [Text ''Could not calculate new routes''])
   \<and> route_cache (snd (recalculate_route osrm_down 2 19.1 72.9 driver7 tracked)) 2 = None
   \<and> selected_route_cache (snd (recalculate_route osrm_down 2 19.1 72.9 driver7 tracked)) 2
       = Some 0"
proof -
  have s: "fst (select_route 2 0 driver7 tracked) = Inr (True, 0)"
    by (simp add: select_route_def scenario_defs4)
  have r: "fst (recalculate_route osrm_down 2 19.1 72.9 driver7 tracked)
       = Inl (HTTPException 404 [Text ''Could not calculate new routes''])"
    by (simp add: recalculate_route_def get_alternative_routes_def get_route_with_geometry_def
          http_get_def osrm_down_def truthy_coords_def scenario_defs4)
  from route_caches_cleared_by_route_requests_only
         [where order_id = 2 and idx = 0 and current_user = driver7 and st = tracked
            and provider = osrm_down and lat = "19.1" and lng = "72.9"] s r
  show ?thesis
    by (metis prod.collapse)
qed

text \<open>
  The tracked order 2 is cancelled: its status is CANCELLED, and its route-cache entry and its
  selected-route index are both still there.
\<close>

theorem cancel_keeps_route_cache_counterexample:
  "map (\<lambda>row. (o_id row, o_status row)) (orders (snd (cancel_order 2 admin1 tracked)))
     = [(1, ASSIGNED), (2, CANCELLED)]
   \<and> route_cache (snd (cancel_order 2 admin1 tracked)) 2
       = Some (19.0760, 72.8777, 19.2000, 72.9700, cached_route2)
   \<and> selected_route_cache (snd (cancel_order 2 admin1 tracked)) 2 = Some 1"
  by (simp add: cancel_order_def scenario_defs4)

section \<open>GPS samples outside the service area\<close>

lemmas scenario_defs5 = scenario_defs4 device_connected_def london_frame_def london_update_def

text \<open>
  C4, as the code has it. For coordinates outside the box (latitude 6.5 to 35.5, longitude 68.0
  to 97.5) no ingestion path persists a location record or changes anything else. The two HTTP
  endpoints answer with an explicit error: \<open>/api/location/update\<close> with the validation error
  422 of the request model or the 400 of the geofence, \<open>/api/tracking/update\<close> with the 400.
  The websocket handler skips the frame and goes on to the next one: it stores nothing,
  broadcasts nothing and sends nothing to the device.
\<close>

theorem out_of_area_sample_not_persisted:
  assumes outside: "\<not> is_valid_india_location lat lng"
  shows "(lu_latitude location = lat \<and> lu_longitude location = lng \<longrightarrow>
            snd (location_update_location alive location current_user st) = st
            \<and> (fst (location_update_location alive location current_user st)
                  = Inl RequestValidationError
                \<or> fst (location_update_location alive location current_user st)
                  = Inl (HTTPException 400
                          [Text ''Invalid location - coordinates outside service area. Only live GPS locations within India are accepted.''])))
       \<and> tracking_update_location driver_id lat lng current_user st
           = (Inl (HTTPException 400
                    [Text ''Invalid location - coordinates outside service area'']), st)
       \<and> (or_float (ld_latitude data) (ld_lat data) = Some lat
            \<and> or_float (ld_longitude data) (ld_long data) = Some lng
            \<longrightarrow> websocket_endpoint_step alive driver_id data st = Inr st)"
proof (intro conjI impI)
  assume "lu_latitude location = lat \<and> lu_longitude location = lng"
  with outside show "snd (location_update_location alive location current_user st) = st"
    and "fst (location_update_location alive location current_user st)
                  = Inl RequestValidationError
                \<or> fst (location_update_location alive location current_user st)
                  = Inl (HTTPException 400
                          [Text ''Invalid location - coordinates outside service area. Only live GPS locations within India are accepted.''])"
    by (simp_all add: location_update_location_def)
next
  from outside show "tracking_update_location driver_id lat lng current_user st
           = (Inl (HTTPException 400
                    [Text ''Invalid location - coordinates outside service area'']), st)"
    by (simp add: tracking_update_location_def)
next
  assume "or_float (ld_latitude data) (ld_lat data) = Some lat
            \<and> or_float (ld_longitude data) (ld_long data) = Some lng"
  with outside show "websocket_endpoint_step alive driver_id data st = Inr st"
    by (simp add: websocket_endpoint_step_def Let_def)
qed

text \<open>The coordinates of London, on each of the three paths.\<close>

theorem out_of_area_sample_not_persisted_witness:
  "location_update_location (\<lambda>ws. True) london_update driver7 tracked
     = (Inl (HTTPException 400
              [Text ''Invalid location - coordinates outside service area. Only live GPS locations within India are accepted.'']),
        tracked)
   \<and> tracking_update_location 7 51.5074 (- 0.1278) driver7 tracked
       = (Inl (HTTPException 400 [Text ''Invalid location - coordinates outside service area'']),
          tracked)
   \<and> websocket_endpoint_step (\<lambda>ws. True) 7 london_frame tracked = Inr tracked"
proof -
  have o: "\<not> is_valid_india_location 51.5074 (- 0.1278)"
    by (simp add: is_valid_india_location_def)
  have v: "LocationUpdate_valid london_update"
    "lu_latitude london_update = 51.5074 \<and> lu_longitude london_update = - 0.1278"
    by (simp_all add: LocationUpdate_valid_def london_update_def)
  have f: "or_float (ld_latitude london_frame) (ld_lat london_frame) = Some 51.5074
       \<and> or_float (ld_longitude london_frame) (ld_long london_frame) = Some (- 0.1278)"
    by (simp add: or_float_def truthy_float_def london_frame_def)
  have n: "fst (location_update_location (\<lambda>ws. True) london_update driver7 tracked)
             \<noteq> Inl RequestValidationError"
    using v(1) by (simp add: location_update_location_def Let_def split: prod.splits sum.splits)
  from out_of_area_sample_not_persisted [OF o, where location = london_update
         and alive = "\<lambda>ws. True" and current_user = driver7 and st = tracked
         and data = london_frame and driver_id = 7] v(2) f n
  show ?thesis
    by (metis prod.collapse)
qed

text \<open>
  The device of driver 7, connected as socket 5 and alive, sends the London frame over the
  websocket: the handler returns normally to wait for the next frame, and no message at all has
  been delivered to socket 5 or to anyone.
\<close>

theorem websocket_drops_silently_counterexample:
  "\<not> is_valid_india_location 51.5074 (- 0.1278)
   \<and> tracking_connections device_connected = [5]
   \<and> delivered device_connected = []
   \<and> websocket_endpoint_step (\<lambda>ws. True) 7 london_frame device_connected = Inr device_connected"
  by (simp add: websocket_endpoint_step_def is_valid_india_location_def or_float_def
        scenario_defs5)

section \<open>Best-effort broadcast\<close>











section \<open>The Haversine distance is defined everywhere\<close>

lemma cos_product_bounds:
  fixes u v :: real
  shows "- (sin ((v - u) / 2))\<^sup>2 \<le> cos u * cos v"
    and "cos u * cos v \<le> 1 - (sin ((v - u) / 2))\<^sup>2"
proof -
  define q where "q = (sin ((v - u) / 2))\<^sup>2"
  define r where "r = cos (u + v)"
  have e: "2 * ((v - u) / 2) = - (u - v)"
    by simp
  have "cos (u - v) = cos (- (u - v))"
    by (simp only: cos_minus)
  also have "\<dots> = cos (2 * ((v - u) / 2))"
    by (simp only: e)
  also have "\<dots> = 1 - 2 * q"
    unfolding q_def by (rule cos_double_sin)
  finally have d: "cos (u - v) = 1 - 2 * q" .
  have c: "- 1 \<le> r" "r \<le> 1"
    by (simp_all add: r_def)
  have pp: "cos u * cos v = (1 - 2 * q + r) / 2"
    unfolding cos_times_cos d r_def ..
  show "- (sin ((v - u) / 2))\<^sup>2 \<le> cos u * cos v"
    unfolding pp q_def [symmetric] using c(1) by simp
  show "cos u * cos v \<le> 1 - (sin ((v - u) / 2))\<^sup>2"
    unfolding pp q_def [symmetric] using c(2) by simp
qed

lemma haversine_a_range:
  "0 \<le> haversine_a lat1 lon1 lat2 lon2" "haversine_a lat1 lon1 lat2 lon2 \<le> 1"
proof -
  define s where "s = (sin ((lat2 - lat1) / 2))\<^sup>2"
  define t where "t = (sin ((lon2 - lon1) / 2))\<^sup>2"
  define p where "p = cos lat1 * cos lat2"
  have a: "haversine_a lat1 lon1 lat2 lon2 = s + p * t"
    by (simp add: haversine_a_def s_def t_def p_def)
  have s: "0 \<le> s" "s \<le> 1" and t: "0 \<le> t" "t \<le> 1"
    by (simp_all add: s_def t_def abs_square_le_1)
  have p: "- s \<le> p" "p \<le> 1 - s"
    using cos_product_bounds [where u = lat1 and v = lat2] by (simp_all add: s_def p_def)
  have "(- s) * t \<le> p * t"
    using p(1) t(1) by (rule mult_right_mono)
  then have "- (s * t) \<le> p * t"
    by simp
  moreover have "s * t \<le> s"
    using s(1) t(2) by (simp add: mult_left_le)
  ultimately show "0 \<le> haversine_a lat1 lon1 lat2 lon2"
    unfolding a by linarith
  have "p * t \<le> (1 - s) * t"
    using p(2) t(1) by (rule mult_right_mono)
  also have "\<dots> \<le> 1 - s"
    using s(2) t(2) by (simp add: mult_left_le)
  finally show "haversine_a lat1 lon1 lat2 lon2 \<le> 1"
    unfolding a by linarith
qed

lemma haversine_distance_value:
  "haversine_distance lat1 lon1 lat2 lon2 =
     Inr (2 * arcsin (sqrt (haversine_a (math_radians lat1) (math_radians lon1)
                                          (math_radians lat2) (math_radians lon2))) * 6371)"
proof -
  let ?a = "haversine_a (math_radians lat1) (math_radians lon1)
              (math_radians lat2) (math_radians lon2)"
  have "0 \<le> ?a" "?a \<le> 1" by (rule haversine_a_range)+
  then have "\<not> ?a < 0" "\<not> sqrt ?a < - 1" "\<not> 1 < sqrt ?a"
    by (simp_all add: real_le_lsqrt order_trans [of "- 1" 0] not_less)
  then show ?thesis
    by (simp add: haversine_distance_def math_sqrt_def math_asin_def Let_def)
qed

lemma haversine_distance_total:
  "\<exists>d. haversine_distance lat1 lon1 lat2 lon2 = Inr d \<and> 0 \<le> d"
proof -
  let ?a = "haversine_a (math_radians lat1) (math_radians lon1)
              (math_radians lat2) (math_radians lon2)"
  have "0 \<le> ?a" "?a \<le> 1" by (rule haversine_a_range)+
  then have "0 \<le> sqrt ?a" "sqrt ?a \<le> 1"
    by (simp_all add: real_le_lsqrt)
  then have "0 \<le> arcsin (sqrt ?a)"
    by (simp add: arcsin_nonneg)
  then show ?thesis
    by (simp add: haversine_distance_value)
qed

lemma haversine_distance_same_point: "haversine_distance lat lon lat lon = Inr 0"
  by (simp add: haversine_distance_value haversine_a_def)

section \<open>Numerical bounds for the Mumbai to Thane scenario\<close>

lemma sin_taylor5:
  fixes x :: real
  assumes "0 \<le> x"
  shows "x - x ^ 3 / 6 - x ^ 5 / 120 \<le> sin x" and "sin x \<le> x - x ^ 3 / 6 + x ^ 5 / 120"
proof -
  have five: "{..<5::nat} = {0, 1, 2, 3, 4}"
    by auto
  have s: "(\<Sum>m<5. sin_coeff m * x ^ m) = x - x ^ 3 / 6"
    unfolding five by (simp add: sin_coeff_def fact_numeral)
  have "\<bar>sin x - (\<Sum>m<5. sin_coeff m * x ^ m)\<bar> \<le> inverse (fact 5) * \<bar>x\<bar> ^ 5"
    by (rule Maclaurin_sin_bound)
  moreover have "fact 5 = (120 :: real)"
    by (simp add: fact_numeral)
  then have "inverse (fact 5) * \<bar>x\<bar> ^ 5 = x ^ 5 / 120"
    using assms by simp
  ultimately have b: "\<bar>sin x - (x - x ^ 3 / 6)\<bar> \<le> x ^ 5 / 120"
    by (simp only: s)
  from b show "x - x ^ 3 / 6 - x ^ 5 / 120 \<le> sin x" by linarith
  from b show "sin x \<le> x - x ^ 3 / 6 + x ^ 5 / 120" by linarith
qed

lemma sin_lower_between:
  fixes x :: real
  assumes "0 \<le> lo" "lo \<le> x" "x \<le> hi"
  shows "lo - hi ^ 3 / 6 - hi ^ 5 / 120 \<le> sin x"
proof -
  have x0: "0 \<le> x" using assms by linarith
  have "x ^ 3 \<le> hi ^ 3" "x ^ 5 \<le> hi ^ 5"
    using x0 assms(3) by (simp_all add: power_mono)
  with sin_taylor5(1) [OF x0] assms(2) show ?thesis by linarith
qed

lemma pi_bounds: "3.141 < pi" "pi < 3.15"
proof -
  define t :: real where "t = pi / 6"
  have t0: "0 \<le> t" by (simp add: t_def)
  have half: "sin t = 1 / 2" by (simp add: t_def sin_30)
  have up: "t \<le> 1 / 2 + u ^ 3 / 6 + u ^ 5 / 120" if "t \<le> u" for u
  proof -
    have "t ^ 3 \<le> u ^ 3" "t ^ 5 \<le> u ^ 5"
      using t0 that by (simp_all add: power_mono)
    with sin_taylor5(1) [OF t0] half show ?thesis by linarith
  qed
  have n1: "1 / 2 + (2 / 3 :: real) ^ 3 / 6 + (2 / 3) ^ 5 / 120 \<le> 0.5505"
    and n2: "1 / 2 + (0.5505 :: real) ^ 3 / 6 + 0.5505 ^ 5 / 120 \<le> 0.5283"
    and n3: "1 / 2 + (0.5283 :: real) ^ 3 / 6 + 0.5283 ^ 5 / 120 \<le> 0.52492"
    by (simp_all add: power_divide)
  have "t \<le> 2 / 3" using pi_less_4 by (simp add: t_def)
  from up [OF this] n1 have "t \<le> 0.5505" by linarith
  from up [OF this] n2 have "t \<le> 0.5283" by linarith
  from up [OF this] n3 have u3: "t \<le> 0.52492" by linarith
  then show "pi < 3.15" by (simp add: t_def)
  have u5: "t ^ 5 \<le> 0.52492 ^ 5"
    using u3 t0 by (rule power_mono)
  have lo: "1 / 2 + l ^ 3 / 6 - 0.52492 ^ 5 / 120 \<le> t" if "0 \<le> l" "l \<le> t" for l
  proof -
    have "l ^ 3 \<le> t ^ 3"
      using that by (simp add: power_mono)
    with sin_taylor5(2) [OF t0] half u5 show ?thesis by linarith
  qed
  have m1: "(0.5205 :: real) \<le> 1 / 2 + (1 / 2) ^ 3 / 6 - 0.52492 ^ 5 / 120"
    and m2: "(0.52316 :: real) \<le> 1 / 2 + 0.5205 ^ 3 / 6 - 0.52492 ^ 5 / 120"
    and m3: "(0.52353 :: real) \<le> 1 / 2 + 0.52316 ^ 3 / 6 - 0.52492 ^ 5 / 120"
    by (simp_all add: power_divide)
  have p: "(0 :: real) \<le> 1 / 2" "(0 :: real) \<le> 0.5205" "(0 :: real) \<le> 0.52316"
    by simp_all
  have l0: "1 / 2 \<le> t"
    using sin_x_le_x [OF t0] half by simp
  from lo [OF p(1) l0] m1 have l1: "0.5205 \<le> t" by linarith
  from lo [OF p(2) l1] m2 have l2: "0.52316 \<le> t" by linarith
  from lo [OF p(3) l2] m3 have "0.52353 \<le> t" by linarith
  then show "3.141 < pi" by (simp add: t_def)
qed

lemma square_between:
  fixes s :: real
  assumes "0 \<le> lo" "lo \<le> s" "s \<le> hi"
  shows "lo\<^sup>2 \<le> s\<^sup>2" and "s\<^sup>2 \<le> hi\<^sup>2"
  using assms by (simp_all add: power_mono)

lemma product_between:
  fixes x y :: real
  assumes "0 \<le> a" "a \<le> x" "x \<le> b" "0 \<le> c" "c \<le> y" "y \<le> d"
  shows "a * c \<le> x * y" and "x * y \<le> b * d"
proof -
  show "a * c \<le> x * y"
    using assms by (intro mult_mono) linarith+
  show "x * y \<le> b * d"
    using assms by (intro mult_mono) linarith+
qed

lemma cos_double_between:
  fixes h :: real
  assumes "0 \<le> lo" "lo \<le> sin h" "sin h \<le> hi"
  shows "1 - 2 * hi\<^sup>2 \<le> cos (2 * h)" and "cos (2 * h) \<le> 1 - 2 * lo\<^sup>2"
  using square_between [OF assms] by (simp_all add: cos_double_sin)

text \<open>
  The value \<open>a\<close> of the Haversine formula for the points (19.0760, 72.8777) and
  (19.2183, 72.9781), between the squares of what 19 km and 19.1 km need.
\<close>

lemma scenario_haversine_a:
  defines "A \<equiv> haversine_a (math_radians 19.0760) (math_radians 72.8777)
                  (math_radians 19.2183) (math_radians 72.9781)"
  shows "(19 / 12742)\<^sup>2 < A"
    and "A < (19.1 / 12742 - (19.1 / 12742) ^ 3 / 6 - (19.1 / 12742) ^ 5 / 120)\<^sup>2"
proof -
  define x1 :: real where "x1 = 1423 * pi / 3600000"
  define x2 :: real where "x2 = 1004 * pi / 3600000"
  define h1 :: real where "h1 = 19076 * pi / 360000"
  define h2 :: real where "h2 = 192183 * pi / 3600000"
  have e: "(math_radians 19.2183 - math_radians 19.0760) / 2 = x1"
    "(math_radians 72.9781 - math_radians 72.8777) / 2 = x2"
    "math_radians 19.0760 = 2 * h1" "math_radians 19.2183 = 2 * h2"
    by (simp_all add: math_radians_def x1_def x2_def h1_def h2_def)
  have "A = (sin x1)\<^sup>2
              + cos (math_radians 19.0760) * cos (math_radians 19.2183) * (sin x2)\<^sup>2"
    unfolding A_def haversine_a_def Let_def e(1,2) ..
  then have A: "A = (sin x1)\<^sup>2 + cos (2 * h1) * cos (2 * h2) * (sin x2)\<^sup>2"
    unfolding e(3,4) .
  note pl = pi_bounds(1) and pu = pi_bounds(2)
  have x1: "1423 * 3.141 / 3600000 \<le> x1" "x1 \<le> 0.00124513"
    and x2: "1004 * 3.141 / 3600000 \<le> x2" "x2 \<le> 0.00087851"
    and h1: "19076 * 3.141 / 360000 \<le> h1" "h1 \<le> 0.166916"
    and h2: "192183 * 3.141 / 3600000 \<le> h2" "h2 \<le> 0.168161"
    using pl pu by (simp_all add: x1_def x2_def h1_def h2_def)
  have n: "(0.00124156 :: real) \<le> 1423 * 3.141 / 3600000 - 0.00124513 ^ 3 / 6 - 0.00124513 ^ 5 / 120"
    "(0.00087598 :: real) \<le> 1004 * 3.141 / 3600000 - 0.00087851 ^ 3 / 6 - 0.00087851 ^ 5 / 120"
    "(0.165661 :: real) \<le> 19076 * 3.141 / 360000 - 0.166916 ^ 3 / 6 - 0.166916 ^ 5 / 120"
    "(0.166886 :: real) \<le> 192183 * 3.141 / 3600000 - 0.168161 ^ 3 / 6 - 0.168161 ^ 5 / 120"
    by (simp_all add: power_divide)
  have pos: "(0 :: real) \<le> 1423 * 3.141 / 3600000" "(0 :: real) \<le> 1004 * 3.141 / 3600000"
    "(0 :: real) \<le> 19076 * 3.141 / 360000" "(0 :: real) \<le> 192183 * 3.141 / 3600000"
    by simp_all
  have s1: "0.00124156 \<le> sin x1" "sin x1 \<le> 0.00124513"
    using sin_lower_between [OF pos(1) x1] n(1) sin_x_le_x [of x1] x1 pos(1) by linarith+
  have s2: "0.00087598 \<le> sin x2" "sin x2 \<le> 0.00087851"
    using sin_lower_between [OF pos(2) x2] n(2) sin_x_le_x [of x2] x2 pos(2) by linarith+
  have g1: "0.165661 \<le> sin h1" "sin h1 \<le> 0.166916"
    using sin_lower_between [OF pos(3) h1] n(3) sin_x_le_x [of h1] h1 pos(3) by linarith+
  have g2: "0.166886 \<le> sin h2" "sin h2 \<le> 0.168161"
    using sin_lower_between [OF pos(4) h2] n(4) sin_x_le_x [of h2] h2 pos(4) by linarith+
  have q1: "0.00124156\<^sup>2 \<le> (sin x1)\<^sup>2" "(sin x1)\<^sup>2 \<le> 0.00124513\<^sup>2"
    using square_between [OF _ s1] by simp_all
  have q2: "0.00087598\<^sup>2 \<le> (sin x2)\<^sup>2" "(sin x2)\<^sup>2 \<le> 0.00087851\<^sup>2"
    using square_between [OF _ s2] by simp_all
  have c1: "0.94427 \<le> cos (2 * h1)" "cos (2 * h1) \<le> 0.94512"
  proof -
    have "(0.94427 :: real) \<le> 1 - 2 * 0.166916\<^sup>2" "1 - 2 * 0.165661\<^sup>2 \<le> (0.94512 :: real)"
      by (simp_all add: power_divide)
    with cos_double_between [OF _ g1]
    show "0.94427 \<le> cos (2 * h1)" "cos (2 * h1) \<le> 0.94512" by simp_all
  qed
  have c2: "0.94344 \<le> cos (2 * h2)" "cos (2 * h2) \<le> 0.9443"
  proof -
    have "(0.94344 :: real) \<le> 1 - 2 * 0.168161\<^sup>2" "1 - 2 * 0.166886\<^sup>2 \<le> (0.9443 :: real)"
      by (simp_all add: power_divide)
    with cos_double_between [OF _ g2]
    show "0.94344 \<le> cos (2 * h2)" "cos (2 * h2) \<le> 0.9443" by simp_all
  qed
  have cc: "0.94427 * 0.94344 \<le> cos (2 * h1) * cos (2 * h2)"
    "cos (2 * h1) * cos (2 * h2) \<le> 0.94512 * 0.9443"
    using product_between [OF _ c1 _ c2] by simp_all
  have t: "0.94427 * 0.94344 * 0.00087598\<^sup>2 \<le> cos (2 * h1) * cos (2 * h2) * (sin x2)\<^sup>2"
    "cos (2 * h1) * cos (2 * h2) * (sin x2)\<^sup>2 \<le> 0.94512 * 0.9443 * 0.00087851\<^sup>2"
    using product_between [OF _ cc _ q2] by simp_all
  have lo: "(19 / 12742 :: real)\<^sup>2 < 0.00124156\<^sup>2 + 0.94427 * 0.94344 * 0.00087598\<^sup>2"
    by (simp add: power_divide)
  have hi: "(0.00124513 :: real)\<^sup>2 + 0.94512 * 0.9443 * 0.00087851\<^sup>2
              < (19.1 / 12742 - (19.1 / 12742) ^ 3 / 6 - (19.1 / 12742) ^ 5 / 120)\<^sup>2"
    by (simp add: power_divide)
  show "(19 / 12742)\<^sup>2 < A"
    unfolding A using lo q1(1) t(1) by linarith
  show "A < (19.1 / 12742 - (19.1 / 12742) ^ 3 / 6 - (19.1 / 12742) ^ 5 / 120)\<^sup>2"
    unfolding A using hi q1(2) t(2) by linarith
qed

lemma scenario_haversine_distance:
  "\<exists>h. haversine_distance 19.0760 72.8777 19.2183 72.9781 = Inr h \<and> 19 < h \<and> h < 19.1"
proof -
  define A where "A = haversine_a (math_radians 19.0760) (math_radians 72.8777)
                        (math_radians 19.2183) (math_radians 72.9781)"
  define Z :: real where "Z = 19.1 / 12742"
  define z where "z = arcsin (sqrt A)"
  have v: "haversine_distance 19.0760 72.8777 19.2183 72.9781 = Inr (2 * z * 6371)"
    unfolding z_def A_def by (rule haversine_distance_value)
  have a01: "0 \<le> A" "A \<le> 1"
    unfolding A_def by (rule haversine_a_range)+
  then have r01: "0 \<le> sqrt A" "sqrt A \<le> 1"
    by (simp_all add: real_le_lsqrt)
  have lo: "(19 / 12742)\<^sup>2 < A"
    and hi: "A < (Z - Z ^ 3 / 6 - Z ^ 5 / 120)\<^sup>2"
    unfolding A_def Z_def by (rule scenario_haversine_a)+
  have "19 / 12742 < sqrt A"
    using lo by (rule real_less_rsqrt)
  moreover have "sqrt A \<le> z"
  proof -
    have "0 \<le> z"
      unfolding z_def using r01 by (simp add: arcsin_nonneg)
    then have "sin z \<le> z" by (rule sin_x_le_x)
    moreover have "- 1 \<le> sqrt A"
      using r01(1) by linarith
    then have "sin z = sqrt A"
      unfolding z_def using r01(2) by (rule sin_arcsin)
    ultimately show ?thesis by simp
  qed
  ultimately have low: "19 < 2 * z * 6371" by simp
  have Z0: "0 \<le> Z" "Z \<le> 1" by (simp_all add: Z_def)
  have S0: "0 \<le> Z - Z ^ 3 / 6 - Z ^ 5 / 120"
    by (simp add: Z_def power_divide)
  have "sqrt A < Z - Z ^ 3 / 6 - Z ^ 5 / 120"
    using S0 hi by (rule real_less_lsqrt)
  also have "\<dots> \<le> sin Z"
    using Z0(1) by (rule sin_taylor5(1))
  finally have "sqrt A < sin Z" .
  moreover have "- 1 \<le> sqrt A"
    using r01(1) by linarith
  ultimately have "arcsin (sqrt A) < arcsin (sin Z)"
    by (intro arcsin_less_arcsin) simp_all
  moreover have "arcsin (sin Z) = Z"
    using Z0 pi_ge_two by (intro arcsin_sin) simp_all
  ultimately have "z < Z" by (simp add: z_def)
  then have high: "2 * z * 6371 < 19.1" by (simp add: Z_def)
  from v low high show ?thesis by blast
qed

lemma calculate_eta_default:
  assumes "0 \<le> distance_km"
  shows "calculate_eta distance_km current_speed_kmh 40
           = Inr \<lfloor>60 * distance_km / (case current_speed_kmh of None \<Rightarrow> 40
                                          | Some v \<Rightarrow> if 5 < v then v else 40)\<rfloor>"
proof -
  define speed :: real where
    "speed = (case current_speed_kmh of None \<Rightarrow> 40 | Some v \<Rightarrow> if 5 < v then v else 40)"
  have pos: "0 < speed"
    by (cases current_speed_kmh) (auto simp: speed_def)
  have nn: "0 \<le> distance_km / speed * 60"
    using assms pos by simp
  have "calculate_eta distance_km current_speed_kmh 40 = Inr (py_int (distance_km / speed * 60))"
    using pos by (simp add: calculate_eta_def speed_to_use_cases speed_def [symmetric] py_truediv_def)
  also have "py_int (distance_km / speed * 60) = \<lfloor>60 * distance_km / speed\<rfloor>"
    using nn by (simp add: py_int_nonneg mult.commute)
  finally show ?thesis by (simp add: speed_def)
qed

lemma get_distance_and_eta_no_road:
  assumes "fst (get_road_distance provider calls driver_lat driver_lon customer_lat customer_lon 5)
             = (None, None)"
    and "haversine_distance driver_lat driver_lon customer_lat customer_lon = Inr h"
    and "0 \<le> h"
  shows "fst (get_distance_and_eta provider calls driver_lat driver_lon customer_lat customer_lon
                current_speed_kmh True)
           = Inr (h, \<lfloor>60 * h / (case current_speed_kmh of None \<Rightarrow> 40
                                   | Some v \<Rightarrow> if 5 < v then v else 40)\<rfloor>, False)"
proof -
  obtain calls' where
    "get_road_distance provider calls driver_lat driver_lon customer_lat customer_lon 5
       = ((None, None), calls')"
    using assms(1)
    by (cases "get_road_distance provider calls driver_lat driver_lon customer_lat customer_lon 5")
       auto
  then show ?thesis
    using assms(2) calculate_eta_default [OF assms(3), of current_speed_kmh]
    by (simp add: get_distance_and_eta_def)
qed

lemma scenario_fallback_value:
  "\<exists>h. 19 < h \<and> h < 19.1
      \<and> fst (get_distance_and_eta osrm_down [] 19.0760 72.8777 19.2183 72.9781 None True)
          = Inr (h, 28, False)"
proof -
  from scenario_haversine_distance obtain h where
    h: "haversine_distance 19.0760 72.8777 19.2183 72.9781 = Inr h" "19 < h" "h < 19.1"
    by blast
  have down: "fst (get_road_distance osrm_down [] 19.0760 72.8777 19.2183 72.9781 5) = (None, None)"
    by (simp add: get_road_distance_def http_get_def osrm_down_def)
  have "0 \<le> h" using h(2) by linarith
  from get_distance_and_eta_no_road [OF down h(1) this, of None]
  have "fst (get_distance_and_eta osrm_down [] 19.0760 72.8777 19.2183 72.9781 None True)
          = Inr (h, \<lfloor>60 * h / 40\<rfloor>, False)"
    by simp
  moreover have "\<lfloor>60 * h / 40\<rfloor> = 28"
    using h(2,3) by (intro floor_unique) simp_all
  ultimately show ?thesis
    using h(2,3) by auto
qed

section \<open>The Haversine fallback of get_distance_and_eta\<close>

text \<open>
  C9, as the code has it. When \<open>get_road_distance\<close> yields no usable result,
  \<open>get_distance_and_eta\<close> returns the Haversine distance \<open>h\<close> (which is defined for every pair
  of points and is not negative), the ETA \<open>\<lfloor>60 * h / speed\<rfloor>\<close> minutes, where \<open>speed\<close> is the
  live speed if that is strictly greater than 5 km/h and 40 km/h otherwise, and
  \<open>is_road_distance = False\<close>. For driver (19.0760, 72.8777) and customer (19.2183, 72.9781)
  with no live speed and no provider, the distance is between 19.0 and 19.1 km (about 19.0 km,
  not 17.7) and the ETA is 28 minutes (not 26).
\<close>

theorem get_distance_and_eta_fallback:
  "(fst (get_road_distance provider calls driver_lat driver_lon customer_lat customer_lon 5)
      = (None, None) \<longrightarrow>
     (\<exists>h. haversine_distance driver_lat driver_lon customer_lat customer_lon = Inr h \<and> 0 \<le> h
        \<and> fst (get_distance_and_eta provider calls driver_lat driver_lon customer_lat
                  customer_lon current_speed_kmh True)
            = Inr (h, \<lfloor>60 * h / (case current_speed_kmh of None \<Rightarrow> 40
                                    | Some v \<Rightarrow> if 5 < v then v else 40)\<rfloor>, False)))
   \<and> (\<exists>h. 19 < h \<and> h < 19.1
         \<and> fst (get_distance_and_eta osrm_down [] 19.0760 72.8777 19.2183 72.9781 None True)
             = Inr (h, 28, False))"
proof (intro conjI impI)
  assume no_road:
    "fst (get_road_distance provider calls driver_lat driver_lon customer_lat customer_lon 5)
       = (None, None)"
  from haversine_distance_total [of driver_lat driver_lon customer_lat customer_lon]
  obtain h where h: "haversine_distance driver_lat driver_lon customer_lat customer_lon = Inr h"
    "0 \<le> h" by blast
  from get_distance_and_eta_no_road [OF no_road h, of current_speed_kmh] h
  show "\<exists>h. haversine_distance driver_lat driver_lon customer_lat customer_lon = Inr h \<and> 0 \<le> h
        \<and> fst (get_distance_and_eta provider calls driver_lat driver_lon customer_lat
                  customer_lon current_speed_kmh True)
            = Inr (h, \<lfloor>60 * h / (case current_speed_kmh of None \<Rightarrow> 40
                                    | Some v \<Rightarrow> if 5 < v then v else 40)\<rfloor>, False)"
    by blast
next
  show "\<exists>h. 19 < h \<and> h < 19.1
         \<and> fst (get_distance_and_eta osrm_down [] 19.0760 72.8777 19.2183 72.9781 None True)
             = Inr (h, 28, False)"
    by (rule scenario_fallback_value)
qed

text \<open>
  The provider is down and the driver, moving at 30 km/h, is at the customer's door: distance 0
  and ETA 0 by the fallback.
\<close>

theorem get_distance_and_eta_fallback_witness:
  "fst (get_road_distance osrm_down [] 19.0760 72.8777 19.0760 72.8777 5) = (None, None)
   \<and> fst (get_distance_and_eta osrm_down [] 19.0760 72.8777 19.0760 72.8777 (Some 30) True)
       = Inr (0, 0, False)"
proof -
  have down: "fst (get_road_distance osrm_down [] 19.0760 72.8777 19.0760 72.8777 5) = (None, None)"
    by (simp add: get_road_distance_def http_get_def osrm_down_def)
  from get_distance_and_eta_fallback [where provider = osrm_down and calls = "[]"
         and driver_lat = "19.0760" and driver_lon = "72.8777" and customer_lat = "19.0760"
         and customer_lon = "72.8777" and current_speed_kmh = "Some 30", THEN conjunct1] down
  have "\<exists>h. haversine_distance 19.0760 72.8777 19.0760 72.8777 = Inr h \<and> 0 \<le> h
        \<and> fst (get_distance_and_eta osrm_down [] 19.0760 72.8777 19.0760 72.8777 (Some 30) True)
            = Inr (h, \<lfloor>60 * h / (case Some (30 :: real) of None \<Rightarrow> 40
                                    | Some v \<Rightarrow> if 5 < v then v else 40)\<rfloor>, False)"
    by blast
  then have "fst (get_distance_and_eta osrm_down [] 19.0760 72.8777 19.0760 72.8777 (Some 30) True)
       = Inr (0, 0, False)"
    by (auto simp: haversine_distance_same_point)
  with down show ?thesis by blast
qed

text \<open>
  The scenario of the specification: the distance returned is more than 19 km, so more than
  1.3 km above 17.7 km, and the ETA is 28 minutes.
\<close>

theorem mumbai_thane_fallback_counterexample:
  "(case fst (get_distance_and_eta osrm_down [] 19.0760 72.8777 19.2183 72.9781 None True) of
      Inl e \<Rightarrow> False
    | Inr (distance_km, eta_minutes, is_road_distance) \<Rightarrow>
        17.7 + 1.3 < distance_km \<and> eta_minutes = 28 \<and> eta_minutes \<noteq> 26 \<and> \<not> is_road_distance)"
  using scenario_fallback_value by auto

section \<open>A tracking query that hits the route cache\<close>

lemma get_road_distance_calls:
  "snd (get_road_distance provider calls lat1 lon1 lat2 lon2 timeout)
     = calls @ [\<lparr>q_overview = ''false'', q_alternatives = False, q_lon1 = lon1, q_lat1 = lat1,
                 q_lon2 = lon2, q_lat2 = lat2, q_timeout = timeout\<rparr>]"
  by (simp add: get_road_distance_def http_get_def)

lemma get_distance_and_eta_shape:
  "\<exists>d eta road.
     get_distance_and_eta provider calls driver_lat driver_lon customer_lat customer_lon speed True
       = (Inr (d, eta, road),
          calls @ [\<lparr>q_overview = ''false'', q_alternatives = False, q_lon1 = driver_lon,
                     q_lat1 = driver_lat, q_lon2 = customer_lon, q_lat2 = customer_lat,
                     q_timeout = 5\<rparr>])"
proof -
  obtain rd re calls' where
    g: "get_road_distance provider calls driver_lat driver_lon customer_lat customer_lon 5
          = ((rd, re), calls')"
    by (metis surj_pair)
  with get_road_distance_calls [of provider calls driver_lat driver_lon customer_lat customer_lon 5]
  have c: "calls' = calls @ [\<lparr>q_overview = ''false'', q_alternatives = False,
              q_lon1 = driver_lon, q_lat1 = driver_lat, q_lon2 = customer_lon,
              q_lat2 = customer_lat, q_timeout = 5\<rparr>]"
    by simp
  from haversine_distance_total [of driver_lat driver_lon customer_lat customer_lon]
  obtain h where h: "haversine_distance driver_lat driver_lon customer_lat customer_lon = Inr h"
    "0 \<le> h" by blast
  show ?thesis
    using g c h(1) calculate_eta_default [OF h(2), of speed]
    by (auto simp add: get_distance_and_eta_def)
qed

lemma get_order_tracking_route_hit:
  assumes cached: "route_cache st order_id
                     = Some (cached_driver_lat, cached_driver_lng, cached_cust_lat,
                             cached_cust_lng, cached_route)"
    and moved: "haversine_distance cached_driver_lat cached_driver_lng driver_lat driver_lng
                  = Inr movement_km"
    and near: "movement_km * 1000 < 100"
  shows "\<exists>d eta.
     get_order_tracking_route provider order_id driver_lat driver_lng cust_lat cust_lng speed st
       = (Inr (Some d, Some eta, Some cached_route),
          st\<lparr>osrm_calls := osrm_calls st
               @ [\<lparr>q_overview = ''false'', q_alternatives = False, q_lon1 = driver_lng,
                   q_lat1 = driver_lat, q_lon2 = cust_lng, q_lat2 = cust_lat,
                   q_timeout = 5\<rparr>]\<rparr>)"
proof -
  from get_distance_and_eta_shape
         [of provider "osrm_calls st" driver_lat driver_lng cust_lat cust_lng
             "if truthy_float speed then speed else None"]
  obtain d eta road where
    "get_distance_and_eta provider (osrm_calls st) driver_lat driver_lng cust_lat cust_lng
        (if truthy_float speed then speed else None) True
       = (Inr (d, eta, road),
          osrm_calls st @ [\<lparr>q_overview = ''false'', q_alternatives = False, q_lon1 = driver_lng,
                     q_lat1 = driver_lat, q_lon2 = cust_lng, q_lat2 = cust_lat,
                     q_timeout = 5\<rparr>])"
    by blast
  then show ?thesis
    using near
    by (simp add: get_order_tracking_route_def cached moved ROUTE_CACHE_THRESHOLD_METERS_def)
qed

text \<open>
  C3, as the code has it. Take a tracking query that reaches the route computation: the order
  exists, has a driver and is ASSIGNED or IN_TRANSIT, the driver has a last location and a user
  record, and a destination (the order's delivery coordinates, else the customer's) is known.
  If a route-cache entry exists for the order and the Haversine distance from the cached driver
  position to the driver's position is strictly less than 100 m, the query returns the cached
  geometry unchanged, leaves the cache as it is, and makes no geometry request; it does make
  exactly one request to the routing provider, the plain distance and duration request of
  \<open>get_distance_and_eta\<close>, because the cache holds no distance or duration.
\<close>

theorem tracking_cache_hit_one_distance_call:
  assumes order: "find (\<lambda>row. o_id row = order_id) (orders st) = Some order"
    and driver_id: "o_driver_id order = Some d" "d \<noteq> 0"
    and status: "o_status order = ASSIGNED \<or> o_status order = IN_TRANSIT"
    and location: "latest_location d (truck_locations st) = Some location"
    and driver: "find (\<lambda>u. u_id u = d) (users st) = Some driver"
    and dest: "(if truthy_float (o_delivery_gps_lat order) \<and> truthy_float (o_delivery_gps_long order)
                then (o_delivery_gps_lat order, o_delivery_gps_long order)
                else (case find (\<lambda>c. cu_id c = o_customer_id order) (customers st) of
                        Some c \<Rightarrow> (cu_gps_lat c, cu_gps_long c)
                      | None \<Rightarrow> (None, None)))
               = (Some cust_lat, Some cust_lng)" "cust_lat \<noteq> 0" "cust_lng \<noteq> 0"
    and cached: "route_cache st order_id
                   = Some (cached_driver_lat, cached_driver_lng, cached_cust_lat,
                           cached_cust_lng, cached_route)"
    and moved: "haversine_distance cached_driver_lat cached_driver_lng
                  (tl_latitude location) (tl_longitude location) = Inr movement_km"
    and near: "movement_km * 1000 < 100"
  shows "\<exists>response.
           fst (get_order_tracking provider order_id current_user st) = Inr response
           \<and> tr_route_geometry response = Some cached_route
           \<and> tr_eta_minutes response \<noteq> None
           \<and> route_cache (snd (get_order_tracking provider order_id current_user st))
               = route_cache st
           \<and> osrm_calls (snd (get_order_tracking provider order_id current_user st))
               = osrm_calls st
                 @ [\<lparr>q_overview = ''false'', q_alternatives = False,
                     q_lon1 = tl_longitude location, q_lat1 = tl_latitude location,
                     q_lon2 = cust_lng, q_lat2 = cust_lat, q_timeout = 5\<rparr>]"
proof -
  from get_order_tracking_route_hit [OF cached moved near, of provider cust_lat cust_lng
         "tl_speed location"]
  obtain dist eta where
    r: "get_order_tracking_route provider order_id (tl_latitude location) (tl_longitude location)
          cust_lat cust_lng (tl_speed location) st
        = (Inr (Some dist, Some eta, Some cached_route),
           st\<lparr>osrm_calls := osrm_calls st
                @ [\<lparr>q_overview = ''false'', q_alternatives = False,
                    q_lon1 = tl_longitude location, q_lat1 = tl_latitude location,
                    q_lon2 = cust_lng, q_lat2 = cust_lat, q_timeout = 5\<rparr>]\<rparr>)"
    by blast
  have st: "o_status order \<noteq> ASSIGNED \<and> o_status order \<noteq> IN_TRANSIT \<longleftrightarrow> False"
    using status by auto
  have tr: "truthy_float (Some cust_lat)" "truthy_float (Some cust_lng)" "truthy_int (Some d)"
    using dest(2,3) driver_id(2) by (simp_all add: truthy_float_def truthy_int_def)
  show ?thesis
    unfolding get_order_tracking_def order Let_def
    by (simp add: driver_id(1) st location driver dest(1) tr r)
qed

text \<open>
  The tracked order 2, the driver standing where the route was cached: the cached polyline comes
  back, and the only request made is the plain distance request.
\<close>

theorem tracking_cache_hit_one_distance_call_witness:
  "(\<exists>response. fst (get_order_tracking osrm_down 2 admin1 tracked) = Inr response
       \<and> tr_route_geometry response = Some cached_route2)
   \<and> route_cache (snd (get_order_tracking osrm_down 2 admin1 tracked)) = route_cache tracked
   \<and> osrm_calls (snd (get_order_tracking osrm_down 2 admin1 tracked))
       = [\<lparr>q_overview = ''false'', q_alternatives = False, q_lon1 = 72.8777, q_lat1 = 19.0760,
           q_lon2 = 72.9700, q_lat2 = 19.2000, q_timeout = 5\<rparr>]"
proof -
  let ?loc = "\<lparr>tl_id = 1, tl_driver_id = 7, tl_latitude = 19.0760, tl_longitude = 72.8777,
          tl_accuracy = None, tl_speed = None, tl_heading = None, tl_timestamp = 0\<rparr>"
  have order: "find (\<lambda>row. o_id row = 2) (orders tracked) = Some order2"
    and driver_id: "o_driver_id order2 = Some 7" "(7 :: int) \<noteq> 0"
    and status: "o_status order2 = ASSIGNED \<or> o_status order2 = IN_TRANSIT"
    and location: "latest_location 7 (truck_locations tracked) = Some ?loc"
    and driver: "find (\<lambda>u. u_id u = 7) (users tracked) = Some driver7"
    and dest: "(if truthy_float (o_delivery_gps_lat order2) \<and> truthy_float (o_delivery_gps_long order2)
                then (o_delivery_gps_lat order2, o_delivery_gps_long order2)
                else (case find (\<lambda>c. cu_id c = o_customer_id order2) (customers tracked) of
                        Some c \<Rightarrow> (cu_gps_lat c, cu_gps_long c)
                      | None \<Rightarrow> (None, None)))
               = (Some 19.2000, Some 72.9700)" "(19.2000 :: real) \<noteq> 0" "(72.9700 :: real) \<noteq> 0"
    and cached: "route_cache tracked 2 = Some (19.0760, 72.8777, 19.2000, 72.9700, cached_route2)"
    and calls: "osrm_calls tracked = []"
    by (simp_all add: latest_location_def scenario_defs4)
  have moved: "haversine_distance 19.0760 72.8777 (tl_latitude ?loc) (tl_longitude ?loc) = Inr 0"
    by (simp add: haversine_distance_same_point)
  have near: "(0 :: real) * 1000 < 100" by simp
  from tracking_cache_hit_one_distance_call
         [OF order driver_id status location driver dest cached moved near,
          of osrm_down admin1] calls
  show ?thesis by auto
qed

text \<open>
  The same query with the provider answering: the cached geometry is returned, and the routing
  provider has been called once during the query, for distance and duration.
\<close>

theorem tracking_cache_hit_calls_provider_counterexample:
  "osrm_calls tracked = []
   \<and> route_cache tracked 2 = Some (19.0760, 72.8777, 19.2000, 72.9700, cached_route2)
   \<and> haversine_distance 19.0760 72.8777 19.0760 72.8777 = Inr 0
   \<and> map_sum id tr_route_geometry (fst (get_order_tracking (osrm_stub 14000 1200 []) 2 admin1 tracked))
       = Inr (Some cached_route2)
   \<and> map_sum id tr_eta_minutes (fst (get_order_tracking (osrm_stub 14000 1200 []) 2 admin1 tracked))
       = Inr (Some 25)
   \<and> osrm_calls (snd (get_order_tracking (osrm_stub 14000 1200 []) 2 admin1 tracked))
       = [\<lparr>q_overview = ''false'', q_alternatives = False, q_lon1 = 72.8777, q_lat1 = 19.0760,
           q_lon2 = 72.9700, q_lat2 = 19.2000, q_timeout = 5\<rparr>]"
  by (simp add: get_order_tracking_def get_order_tracking_route_def latest_location_def
        get_distance_and_eta_def get_road_distance_def http_get_def osrm_stub_def
        get_or_zero_def DISTANCE_CORRECTION_FACTOR_def DURATION_CORRECTION_FACTOR_def
        ROUTE_CACHE_THRESHOLD_METERS_def py_int_def haversine_distance_same_point
        scenario_defs4 del: not_None_eq)

end
